theory Spec2Isabelle
  imports Complex_Main
begin

section \<open>Entity models\<close>

subsection \<open>Dates and statuses\<close>

text \<open>A \<^verbatim>\<open>Date\<close> is kept as its time value, the milliseconds since the epoch.\<close>

type_synonym Date = int

text \<open>The union type \<^verbatim>\<open>"incomplete" | "complete"\<close>, the SQL enum \<^verbatim>\<open>todo_status\<close>.\<close>

datatype todo_status = incomplete | complete

subsection \<open>SubTodo: properties and entities\<close>

text \<open>
  \<^verbatim>\<open>SubTodoProps\<close> and \<^verbatim>\<open>SubTodoEntity\<close> of \<^verbatim>\<open>models/Subtodo.ts\<close>. An optional field
  (\<^verbatim>\<open>id?\<close>, \<^verbatim>\<open>completedAt?\<close>, \<^verbatim>\<open>todoId?\<close>) is an \<open>option\<close>, \<open>None\<close> standing for
  \<^verbatim>\<open>undefined\<close>. The type of identifiers is left open: the conversions only copy them.
\<close>

record 'n SubTodoProps =
  sp_id :: "'n option"
  sp_title :: string
  sp_status :: todo_status
  sp_createdAt :: Date
  sp_completedAt :: "Date option"
  sp_todoId :: "'n option"

record 'n SubTodoEntity =
  se_id :: "'n option"
  se_title :: string
  se_status :: todo_status
  se_created_at :: Date
  se_completed_at :: "Date option"
  se_todo_id :: "'n option"

text \<open>The static \<^verbatim>\<open>SubTodo.toEntity(props)\<close>.\<close>

definition SubTodo_toEntity :: "'n SubTodoProps \<Rightarrow> 'n SubTodoEntity" where
  "SubTodo_toEntity props =
     \<lparr> se_id = sp_id props,
       se_title = sp_title props,
       se_status = sp_status props,
       se_created_at = sp_createdAt props,
       se_completed_at = sp_completedAt props,
       se_todo_id = sp_todoId props \<rparr>"

text \<open>The static \<^verbatim>\<open>SubTodo.toProps(entity)\<close>.\<close>

definition SubTodo_toProps :: "'n SubTodoEntity \<Rightarrow> 'n SubTodoProps" where
  "SubTodo_toProps entity =
     \<lparr> sp_id = se_id entity,
       sp_title = se_title entity,
       sp_status = se_status entity,
       sp_createdAt = se_created_at entity,
       sp_completedAt = se_completed_at entity,
       sp_todoId = se_todo_id entity \<rparr>"

text \<open>
  A \<^verbatim>\<open>SubTodo\<close> instance is its \<^verbatim>\<open>props\<close> (the \<^verbatim>\<open>sql\<close> handle is the store, passed
  explicitly to the operations that use it). The instance method \<^verbatim>\<open>toEntity()\<close> reads
  \<^verbatim>\<open>this.props\<close>.
\<close>

record 'n SubTodo =
  props :: "'n SubTodoProps"

definition toEntity :: "'n SubTodo \<Rightarrow> 'n SubTodoEntity" where
  "toEntity this =
     \<lparr> se_id = sp_id (props this),
       se_title = sp_title (props this),
       se_status = sp_status (props this),
       se_created_at = sp_createdAt (props this),
       se_completed_at = sp_completedAt (props this),
       se_todo_id = sp_todoId (props this) \<rparr>"



section \<open>JavaScript values\<close>

subsection \<open>Numbers\<close>

text \<open>
  A JavaScript number is \<^verbatim>\<open>NaN\<close>, an infinity or a finite double, kept as the rational
  it denotes. The two zeros are one value here: the code tests numbers with
  \<^verbatim>\<open>isNaN\<close>, \<^verbatim>\<open><=\<close> and truthiness and prints them, none of which tells them apart.
\<close>

datatype jsnum = NaN | Fin rat | PosInfinity | NegInfinity

fun isNaN :: "jsnum \<Rightarrow> bool" where
  "isNaN NaN = True"
| "isNaN (Fin q) = False"
| "isNaN PosInfinity = False"
| "isNaN NegInfinity = False"

text \<open>The comparison \<^verbatim>\<open>x <= 0\<close>, false on \<^verbatim>\<open>NaN\<close>.\<close>

fun le_zero :: "jsnum \<Rightarrow> bool" where
  "le_zero NaN = False"
| "le_zero (Fin q) = (q \<le> 0)"
| "le_zero PosInfinity = False"
| "le_zero NegInfinity = True"

text \<open>The number of binary digits of a positive integer.\<close>

function bit_length :: "int \<Rightarrow> int" where
  "bit_length n = (if n \<le> 0 then 0 else 1 + bit_length (n div 2))"
  by pat_completeness auto
termination
  by (relation "measure nat") auto

declare bit_length.simps [simp del]

definition pow2 :: "int \<Rightarrow> rat" where
  "pow2 e = (if 0 \<le> e then 2 ^ nat e else 1 / 2 ^ nat (- e))"

text \<open>The largest \<open>e\<close> with \<open>2 ^ e \<le> a\<close>, for \<open>a > 0\<close>.\<close>

definition floor_log2 :: "rat \<Rightarrow> int" where
  "floor_log2 a =
     (let (n, d) = quotient_of a;
          e0 = bit_length n - bit_length d
      in if pow2 e0 \<le> a then e0 else e0 - 1)"

definition round_half_even :: "rat \<Rightarrow> int" where
  "round_half_even x =
     (let f = \<lfloor>x\<rfloor>; d = x - of_int f
      in if d < 1 / 2 then f
         else if 1 / 2 < d then f + 1
         else if even f then f else f + 1)"

text \<open>
  Rounding a real value to the nearest double, ties to even (IEEE 754 binary64, the
  "Number value for x" of ECMAScript): 53 significant bits, exponents from \<open>-1022\<close>, a
  result of \<open>2 ^ 1024\<close> or more being an infinity.
\<close>

definition round64 :: "rat \<Rightarrow> jsnum" where
  "round64 q =
     (if q = 0 then Fin 0
      else
        let a = \<bar>q\<bar>;
            e = max (floor_log2 a) (- 1022);
            u = pow2 (e - 52);
            r = of_int (round_half_even (a / u)) * u
        in if pow2 1024 \<le> r then (if q < 0 then NegInfinity else PosInfinity)
           else Fin (if q < 0 then - r else r))"

subsection \<open>Strings to numbers\<close>

text \<open>
  \<^verbatim>\<open>Number(s)\<close> on a string (ECMAScript's StringToNumber). The strings met here are
  the segments of \<^verbatim>\<open>req.url\<close>, whose characters are single bytes; the white space and
  line terminators in that range are TAB, LF, VT, FF, CR, SP and NBSP.
\<close>

definition is_ws :: "char \<Rightarrow> bool" where
  "is_ws c = (of_char c \<in> {9, 10, 11, 12, 13, 32, 160 :: int})"

definition trim :: "string \<Rightarrow> string" where
  "trim s = rev (dropWhile is_ws (rev (dropWhile is_ws s)))"

definition is_digit :: "char \<Rightarrow> bool" where
  "is_digit c = (48 \<le> (of_char c :: int) \<and> (of_char c :: int) \<le> 57)"

text \<open>The value of a hexadecimal digit, \<open>None\<close> for any other character.\<close>

definition hex_val :: "char \<Rightarrow> int option" where
  "hex_val c =
     (let n = (of_char c :: int)
      in if 48 \<le> n \<and> n \<le> 57 then Some (n - 48)
         else if 97 \<le> n \<and> n \<le> 102 then Some (n - 87)
         else if 65 \<le> n \<and> n \<le> 70 then Some (n - 55)
         else None)"

text \<open>
  The digits of \<open>s\<close> read in base \<open>b\<close>, most significant first, onto the accumulator;
  \<open>None\<close> when a character is no digit of that base.
\<close>

fun digits_in_base :: "int \<Rightarrow> int \<Rightarrow> string \<Rightarrow> int option" where
  "digits_in_base b acc [] = Some acc"
| "digits_in_base b acc (c # cs) =
     (case hex_val c of
        None \<Rightarrow> None
      | Some v \<Rightarrow> if v < b then digits_in_base b (acc * b + v) cs else None)"

text \<open>A non-empty run of digits of base \<open>b\<close>, and nothing else.\<close>

definition number_in_base :: "int \<Rightarrow> string \<Rightarrow> int option" where
  "number_in_base b s = (if s = [] then None else digits_in_base b 0 s)"

text \<open>
  The exponent part after the mantissa: nothing, or \<^verbatim>\<open>e\<close>/\<^verbatim>\<open>E\<close>, an optional sign and
  a non-empty run of decimal digits.
\<close>

definition exponent_part :: "string \<Rightarrow> int option" where
  "exponent_part s =
     (case s of
        [] \<Rightarrow> Some 0
      | c # r \<Rightarrow>
          if c = CHR ''e'' \<or> c = CHR ''E'' then
            (case r of
               [] \<Rightarrow> None
             | d # ds \<Rightarrow>
                 if d = CHR ''+'' then number_in_base 10 ds
                 else if d = CHR ''-'' then map_option uminus (number_in_base 10 ds)
                 else number_in_base 10 (d # ds))
          else None)"

text \<open>
  An unsigned decimal literal other than \<^verbatim>\<open>Infinity\<close>: digits, an optional point with
  optional digits after it, an optional exponent; or a point with digits after it. Its
  result is the exact value of the literal.
\<close>

definition unsigned_decimal :: "string \<Rightarrow> rat option" where
  "unsigned_decimal s =
     (let ip = takeWhile is_digit s;
          r1 = dropWhile is_digit s;
          has_point = (r1 \<noteq> [] \<and> hd r1 = CHR ''.'');
          fp = (if has_point then takeWhile is_digit (tl r1) else []);
          r2 = (if has_point then dropWhile is_digit (tl r1) else r1)
      in if ip = [] \<and> fp = [] then None
         else
           (case (digits_in_base 10 0 (ip @ fp), exponent_part r2) of
              (Some m, Some e) \<Rightarrow>
                 Some (if 0 \<le> e - int (length fp)
                       then of_int m * 10 ^ nat (e - int (length fp))
                       else of_int m / 10 ^ nat (int (length fp) - e))
            | _ \<Rightarrow> None))"

text \<open>A decimal literal with its optional sign, \<^verbatim>\<open>Infinity\<close> included.\<close>

definition strip_sign :: "string \<Rightarrow> string" where
  "strip_sign s = (if s \<noteq> [] \<and> (hd s = CHR ''+'' \<or> hd s = CHR ''-'') then tl s else s)"

definition signed_decimal :: "string \<Rightarrow> jsnum" where
  "signed_decimal s =
     (let neg = (s \<noteq> [] \<and> hd s = CHR ''-'');
          u = strip_sign s
      in if u = ''Infinity'' then (if neg then NegInfinity else PosInfinity)
         else
           (case unsigned_decimal u of
              None \<Rightarrow> NaN
            | Some q \<Rightarrow> round64 (if neg then - q else q)))"

text \<open>
  The literals \<^verbatim>\<open>0x\<close>, \<^verbatim>\<open>0o\<close>, \<^verbatim>\<open>0b\<close> (either case of the letter) take no sign. A
  string that starts so and has no digits of that base after it is no number.
\<close>

definition radix_prefix :: "string \<Rightarrow> int option" where
  "radix_prefix s =
     (case s of
        c0 # c1 # r \<Rightarrow>
          if c0 = CHR ''0'' then
            (if c1 = CHR ''x'' \<or> c1 = CHR ''X'' then Some 16
             else if c1 = CHR ''o'' \<or> c1 = CHR ''O'' then Some 8
             else if c1 = CHR ''b'' \<or> c1 = CHR ''B'' then Some 2
             else None)
          else None
      | _ \<Rightarrow> None)"

definition StringToNumber :: "string \<Rightarrow> jsnum" where
  "StringToNumber s =
     (let t = trim s
      in if t = [] then Fin 0
         else
           (case radix_prefix t of
              Some b \<Rightarrow>
                (case number_in_base b (drop 2 t) of
                   None \<Rightarrow> NaN
                 | Some n \<Rightarrow> round64 (of_int n))
            | None \<Rightarrow> signed_decimal t))"

text \<open>\<^verbatim>\<open>Number(x)\<close> where \<open>x\<close> is a string or \<^verbatim>\<open>undefined\<close>.\<close>

fun Number :: "string option \<Rightarrow> jsnum" where
  "Number None = NaN"
| "Number (Some s) = StringToNumber s"

subsection \<open>The grammar of numeric strings\<close>

text \<open>
  What it is for a string to be numeric, stated apart from the conversion: the
  productions of ECMAScript's \<^verbatim>\<open>StrNumericLiteral\<close>. A decimal literal is an optional
  sign and then \<^verbatim>\<open>Infinity\<close>, or digits with an optional point, fraction and exponent,
  or a point with a fraction; the other literals are \<^verbatim>\<open>0x\<close>, \<^verbatim>\<open>0o\<close> and \<^verbatim>\<open>0b\<close> with
  digits of their base. The empty string is none of these.
\<close>

definition DecimalDigit :: "char \<Rightarrow> bool" where
  "DecimalDigit c = (c \<in> set ''0123456789'')"

definition HexDigit :: "char \<Rightarrow> bool" where
  "HexDigit c = (c \<in> set ''0123456789abcdefABCDEF'')"

definition OctalDigit :: "char \<Rightarrow> bool" where
  "OctalDigit c = (c \<in> set ''01234567'')"

definition BinaryDigit :: "char \<Rightarrow> bool" where
  "BinaryDigit c = (c \<in> set ''01'')"

definition DecimalDigits :: "string \<Rightarrow> bool" where
  "DecimalDigits ds = (ds \<noteq> [] \<and> list_all DecimalDigit ds)"

definition ExponentPart :: "string \<Rightarrow> bool" where
  "ExponentPart x =
     (\<exists>ind sg ds. x = ind # sg @ ds \<and> (ind = CHR ''e'' \<or> ind = CHR ''E'')
        \<and> (sg = [] \<or> sg = ''+'' \<or> sg = ''-'') \<and> DecimalDigits ds)"

definition FiniteDecimalLiteral :: "string \<Rightarrow> bool" where
  "FiniteDecimalLiteral u =
     ((\<exists>ip fp ex. u = ip @ ''.'' @ fp @ ex \<and> DecimalDigits ip \<and> list_all DecimalDigit fp
          \<and> (ex = [] \<or> ExponentPart ex))
      \<or> (\<exists>fp ex. u = ''.'' @ fp @ ex \<and> DecimalDigits fp \<and> (ex = [] \<or> ExponentPart ex))
      \<or> (\<exists>ip ex. u = ip @ ex \<and> DecimalDigits ip \<and> (ex = [] \<or> ExponentPart ex)))"

definition StrUnsignedDecimalLiteral :: "string \<Rightarrow> bool" where
  "StrUnsignedDecimalLiteral u = (u = ''Infinity'' \<or> FiniteDecimalLiteral u)"

definition StrDecimalLiteral :: "string \<Rightarrow> bool" where
  "StrDecimalLiteral s =
     (\<exists>sg u. s = sg @ u \<and> (sg = [] \<or> sg = ''+'' \<or> sg = ''-'') \<and> StrUnsignedDecimalLiteral u)"

definition NonDecimalIntegerLiteral :: "string \<Rightarrow> bool" where
  "NonDecimalIntegerLiteral s =
     (\<exists>c ds. s = CHR ''0'' # c # ds \<and> ds \<noteq> []
        \<and> (((c = CHR ''x'' \<or> c = CHR ''X'') \<and> list_all HexDigit ds)
            \<or> ((c = CHR ''o'' \<or> c = CHR ''O'') \<and> list_all OctalDigit ds)
            \<or> ((c = CHR ''b'' \<or> c = CHR ''B'') \<and> list_all BinaryDigit ds)))"

definition StrNumericLiteral :: "string \<Rightarrow> bool" where
  "StrNumericLiteral s = (StrDecimalLiteral s \<or> NonDecimalIntegerLiteral s)"

text \<open>The value of a run of decimal digits, and a digit being valid in a base.\<close>

definition decimal_value :: "string \<Rightarrow> int" where
  "decimal_value ds = foldl (\<lambda>a c. 10 * a + (of_char c - 48)) 0 ds"

definition digit_ok :: "int \<Rightarrow> char \<Rightarrow> bool" where
  "digit_ok b c = (\<exists>v. hex_val c = Some v \<and> v < b)"

subsection \<open>Parsed bodies\<close>

text \<open>
  The values \<^verbatim>\<open>JSON.parse\<close> and \<^verbatim>\<open>Object.fromEntries\<close> produce. An object is the
  list of its own properties, each key once.
\<close>

datatype json =
  JNull | JBool bool | JNum jsnum | JStr string | JArr "json list"
  | JObj "(string \<times> json) list"

text \<open>Truthiness, as \<^verbatim>\<open>if (x)\<close>, \<^verbatim>\<open>!x\<close> and \<^verbatim>\<open>x || y\<close> test it.\<close>

fun truthy :: "json \<Rightarrow> bool" where
  "truthy JNull = False"
| "truthy (JBool b) = b"
| "truthy (JNum n) = (n \<noteq> NaN \<and> n \<noteq> Fin 0)"
| "truthy (JStr s) = (s \<noteq> [])"
| "truthy (JArr xs) = True"
| "truthy (JObj kvs) = True"

text \<open>
  Reading a property \<^verbatim>\<open>x.k\<close> of a value other than \<^verbatim>\<open>null\<close>, for the names the code
  reads (\<^verbatim>\<open>method\<close>, \<^verbatim>\<open>_method\<close>, \<^verbatim>\<open>title\<close>, \<^verbatim>\<open>description\<close>, \<^verbatim>\<open>dueAt\<close>): an object
  gives its own property, and no prototype of an object, array, string, number or
  boolean defines one of these names, so everything else gives \<^verbatim>\<open>undefined\<close>, which is
  \<open>None\<close>. Reading a property of \<^verbatim>\<open>null\<close> throws; the callers treat that case.
\<close>

fun get_prop :: "json \<Rightarrow> string \<Rightarrow> json option" where
  "get_prop (JObj kvs) k = map_of kvs k"
| "get_prop v k = None"

text \<open>
  \<^verbatim>\<open>Object.fromEntries(entries)\<close> on string pairs: a key keeps the place of its first
  occurrence and the value of its last.
\<close>

fun set_entry :: "string \<Rightarrow> json \<Rightarrow> (string \<times> json) list \<Rightarrow> (string \<times> json) list" where
  "set_entry k v [] = [(k, v)]"
| "set_entry k v ((k', v') # kvs) =
     (if k' = k then (k, v) # kvs else (k', v') # set_entry k v kvs)"

definition fromEntries :: "(string \<times> string) list \<Rightarrow> json" where
  "fromEntries es = JObj (foldl (\<lambda>acc (k, v). set_entry k (JStr v) acc) [] es)"

section \<open>Requests\<close>

subsection \<open>The incoming message\<close>

text \<open>
  What the adapters read of Node's \<^verbatim>\<open>IncomingMessage\<close>: the transport method, the raw
  URL (\<^verbatim>\<open>req.url\<close> is \<^verbatim>\<open>string | undefined\<close>) and the three headers the code looks at.
  A header that was not sent is \<open>None\<close>.
\<close>

record IncomingMessage =
  req_method :: string
  req_url :: "string option"
  hdr_accept :: "string option"
  hdr_content_type :: "string option"
  hdr_host :: "string option"

text \<open>\<^verbatim>\<open>String.prototype.includes\<close>: \<open>t\<close> occurs in \<open>s\<close> as a contiguous substring.\<close>

fun str_includes :: "string \<Rightarrow> string \<Rightarrow> bool" where
  "str_includes [] t = (t = [])"
| "str_includes (c # s) t = (take (length t) (c # s) = t \<or> str_includes s t)"

text \<open>
  A \<^verbatim>\<open>Request\<close> wraps the incoming message and holds the parsed body, which starts as
  the empty object \<^verbatim>\<open>{}\<close>.
\<close>

record Request =
  req :: IncomingMessage
  body :: json

definition new_Request :: "IncomingMessage \<Rightarrow> Request" where
  "new_Request rq = \<lparr> req = rq, body = JObj [] \<rparr>"

subsection \<open>Body parsing\<close>

text \<open>
  \<^verbatim>\<open>parseBody\<close>. The chunks of the \<^verbatim>\<open>data\<close> events are appended to \<^verbatim>\<open>bodyRaw\<close>
  and the \<^verbatim>\<open>end\<close> event parses the whole. \<^verbatim>\<open>JSON.parse\<close> and the entries of
  \<^verbatim>\<open>new URLSearchParams(bodyRaw)\<close> are the platform's and are parameters:
  \<open>JSON_parse raw\<close> is \<open>None\<close> when \<^verbatim>\<open>JSON.parse\<close> throws, and building the search
  parameters of a string never throws. The result is the settled promise (\<open>Inl\<close> the
  rejection, \<open>Inr\<close> the value resolved with) and the request afterwards.
\<close>

definition parseBody ::
  "(string \<Rightarrow> json option) \<Rightarrow> (string \<Rightarrow> (string \<times> string) list) \<Rightarrow> Request \<Rightarrow> string list
     \<Rightarrow> (string + json) \<times> Request" where
  "parseBody JSON_parse URLSearchParams this chunks =
     (let bodyRaw = concat chunks;
          parsed =
            (if (case hdr_content_type (req this) of
                   None \<Rightarrow> False
                 | Some ct \<Rightarrow> str_includes ct ''x-www-form-urlencoded'')
             then Some (fromEntries (URLSearchParams bodyRaw))
             else JSON_parse bodyRaw)
      in case parsed of
           None \<Rightarrow> (Inl ''Request body must be valid JSON'', this)
         | Some b \<Rightarrow> (Inr b, this\<lparr>body := b\<rparr>))"

subsection \<open>Method, identifiers, content negotiation\<close>

text \<open>
  \<^verbatim>\<open>getMethod\<close>: \<^verbatim>\<open>if (this.body) return this.body.method ?? this.req.method;
  return this.req.method\<close>. The operator \<^verbatim>\<open>??\<close> takes its right side when the left is
  \<^verbatim>\<open>undefined\<close> or \<^verbatim>\<open>null\<close>, and only then. The result is whatever value the body
  carries, or the transport method as a string.
\<close>

definition getMethod :: "Request \<Rightarrow> json" where
  "getMethod this =
     (if truthy (body this) then
        (case get_prop (body this) ''method'' of
           None \<Rightarrow> JStr (req_method (req this))
         | Some JNull \<Rightarrow> JStr (req_method (req this))
         | Some v \<Rightarrow> v)
      else JStr (req_method (req this)))"

text \<open>\<^verbatim>\<open>String.prototype.split\<close> on a one-character separator.\<close>

fun str_split :: "string \<Rightarrow> char \<Rightarrow> string list" where
  "str_split [] sep = [[]]"
| "str_split (c # cs) sep =
     (if c = sep then [] # str_split cs sep
      else (case str_split cs sep of
              [] \<Rightarrow> [[c]]
            | x # xs \<Rightarrow> (c # x) # xs))"

text \<open>Indexing an array: \<^verbatim>\<open>undefined\<close> past its end.\<close>

definition at_index :: "'a list \<Rightarrow> nat \<Rightarrow> 'a option" where
  "at_index xs i = (if i < length xs then Some (xs ! i) else None)"

text \<open>The segment \<^verbatim>\<open>this.req.url?.split("/")[i]\<close>.\<close>

definition url_segment :: "Request \<Rightarrow> nat \<Rightarrow> string option" where
  "url_segment this i =
     (case req_url (req this) of
        None \<Rightarrow> None
      | Some u \<Rightarrow> at_index (str_split u CHR ''/'') i)"

text \<open>
  \<^verbatim>\<open>getId\<close> is \<^verbatim>\<open>Number(this.req.url?.split("/")[2])\<close>, and \<^verbatim>\<open>getSubTodoId\<close> the
  same at index 4.
\<close>

definition getId :: "Request \<Rightarrow> jsnum" where
  "getId this = Number (url_segment this 2)"

definition getSubTodoId :: "Request \<Rightarrow> jsnum" where
  "getSubTodoId this = Number (url_segment this 4)"

text \<open>
  \<^verbatim>\<open>accepts(type)\<close>:
  \<^verbatim>\<open>headers.accept ? headers.accept.includes(type) : false\<close>. An empty header is falsy.
\<close>

definition accepts :: "Request \<Rightarrow> string \<Rightarrow> bool" where
  "accepts this type =
     (case hdr_accept (req this) of
        None \<Rightarrow> False
      | Some a \<Rightarrow> if a = [] then False else str_includes a type)"

section \<open>Responses\<close>

text \<open>The enum \<^verbatim>\<open>StatusCode\<close> with its numeric values, and \<^verbatim>\<open>ContentType\<close>.\<close>

datatype StatusCode =
  OK | Created | NoContent | Redirect | BadRequest | Unauthorized | Forbidden
  | NotFound | InternalServerError

fun status_value :: "StatusCode \<Rightarrow> nat" where
  "status_value OK = 200"
| "status_value Created = 201"
| "status_value NoContent = 204"
| "status_value Redirect = 302"
| "status_value BadRequest = 400"
| "status_value Unauthorized = 401"
| "status_value Forbidden = 403"
| "status_value NotFound = 404"
| "status_value InternalServerError = 500"

definition ContentType_JSON :: string where
  "ContentType_JSON = ''application/json''"

definition ContentType_HTML :: string where
  "ContentType_HTML = ''text/html''"

text \<open>
  \<^verbatim>\<open>ResponseProps\<close>, the descriptor a handler passes to \<^verbatim>\<open>send\<close>. The payload is
  \<^verbatim>\<open>any\<close>: its type is a parameter. \<open>None\<close> is \<^verbatim>\<open>undefined\<close>.
\<close>

record 'p ResponseProps =
  statusCode :: StatusCode
  message :: string
  payload :: "'p option"
  template :: "string option"
  redirect :: "string option"

text \<open>
  The calls \<^verbatim>\<open>send\<close> makes on the \<^verbatim>\<open>ServerResponse\<close>, in order: \<^verbatim>\<open>writeHead(status,
  headers)\<close> and \<^verbatim>\<open>end(data?)\<close>. The data of \<^verbatim>\<open>end\<close> is nothing, the markup a template
  rendered to, or \<^verbatim>\<open>JSON.stringify({ message, payload }, null, 2)\<close>, kept as the object
  that is serialised (a payload that is \<^verbatim>\<open>undefined\<close> leaves no key in the output).
\<close>

datatype 'p body_data = Markup string | JsonOf string "'p option"

datatype 'p res_call =
  writeHead nat "(string \<times> string) list"
| end_res "'p body_data option"

text \<open>
  The truthiness test \<^verbatim>\<open>if (redirect)\<close>, \<^verbatim>\<open>if (template)\<close> on an optional string:
  \<^verbatim>\<open>undefined\<close> and the empty string are falsy.
\<close>

fun truthy_str :: "string option \<Rightarrow> bool" where
  "truthy_str None = False"
| "truthy_str (Some s) = (s \<noteq> [])"

text \<open>
  \<^verbatim>\<open>Response.send\<close>. \<^verbatim>\<open>View.render\<close> is not part of the sources at hand and is a
  parameter: \<open>render t p\<close> is the markup, or \<open>None\<close> when rendering throws (then the head
  has been written and \<^verbatim>\<open>end\<close> is never reached). The result is the list of calls on
  the \<^verbatim>\<open>ServerResponse\<close> and whether \<^verbatim>\<open>send\<close> returned normally. The
  \<^verbatim>\<open>console.log\<close> line writes nothing to the response and is left out.
\<close>

definition send ::
  "(string \<Rightarrow> 'p option \<Rightarrow> string option) \<Rightarrow> Request \<Rightarrow> 'p ResponseProps
     \<Rightarrow> 'p res_call list \<times> bool" where
  "send render rq p =
     (if accepts rq ContentType_HTML \<and> truthy_str (redirect p) then
        ([writeHead (status_value Redirect) [(''Location'', the (redirect p))],
          end_res None], True)
      else if accepts rq ContentType_HTML \<and> truthy_str (template p) then
        (case render (the (template p)) (payload p) of
           Some markup \<Rightarrow>
             ([writeHead (status_value (statusCode p)) [(''Content-Type'', ContentType_HTML)],
               end_res (Some (Markup markup))], True)
         | None \<Rightarrow>
             ([writeHead (status_value (statusCode p)) [(''Content-Type'', ContentType_HTML)]],
              False))
      else
        ([writeHead (status_value (statusCode p)) [(''Content-Type'', ContentType_JSON)],
          end_res (Some (JsonOf (message p) (payload p)))], True))"

text \<open>What a client observes of a list of calls: the status line, a header, the body.\<close>

fun written_status :: "'p res_call list \<Rightarrow> nat option" where
  "written_status [] = None"
| "written_status (writeHead st hs # cs) = Some st"
| "written_status (end_res b # cs) = written_status cs"

fun written_header :: "string \<Rightarrow> 'p res_call list \<Rightarrow> string option" where
  "written_header h [] = None"
| "written_header h (writeHead st hs # cs) = map_of hs h"
| "written_header h (end_res b # cs) = written_header h cs"

fun written_bodies :: "'p res_call list \<Rightarrow> 'p body_data option list" where
  "written_bodies [] = []"
| "written_bodies (writeHead st hs # cs) = written_bodies cs"
| "written_bodies (end_res b # cs) = b # written_bodies cs"


section \<open>Router\<close>

text \<open>The handlers the two controllers register, by name.\<close>

datatype handler =
  H_getTodoList | H_createTodo | H_sendFormCreate | H_sendFormEdit | H_getTodo
  | H_updateTodo | H_deleteTodo | H_completeTodo
  | H_createSubtodo | H_getSubTodoList | H_completeSubTodo

text \<open>
  Modelled from the spec: the \<^verbatim>\<open>Router\<close> class is not among the sources, and with it
  what a registered route is. Section 3 of the specification: a route is an HTTP method,
  a path pattern and a handler reference.
\<close>

record 'h Route =
  httpMethod :: string
  pathPattern :: string
  handlerReference :: 'h

text \<open>
  The calls of \<^verbatim>\<open>TodoController.registerRoutes\<close>, in their order; \<^verbatim>\<open>router.get\<close>,
  \<^verbatim>\<open>router.post\<close>, \<^verbatim>\<open>router.put\<close> and \<^verbatim>\<open>router.del\<close> register under GET, POST, PUT
  and DELETE.
\<close>

definition TodoController_routes :: "handler Route list" where
  "TodoController_routes =
     [\<lparr> httpMethod = ''GET'', pathPattern = ''/todos'', handlerReference = H_getTodoList \<rparr>,
      \<lparr> httpMethod = ''POST'', pathPattern = ''/todos'', handlerReference = H_createTodo \<rparr>,
      \<lparr> httpMethod = ''GET'', pathPattern = ''/todos/new'', handlerReference = H_sendFormCreate \<rparr>,
      \<lparr> httpMethod = ''GET'', pathPattern = ''/todos/:id/edit'', handlerReference = H_sendFormEdit \<rparr>,
      \<lparr> httpMethod = ''GET'', pathPattern = ''/todos/:id'', handlerReference = H_getTodo \<rparr>,
      \<lparr> httpMethod = ''PUT'', pathPattern = ''/todos/:id'', handlerReference = H_updateTodo \<rparr>,
      \<lparr> httpMethod = ''DELETE'', pathPattern = ''/todos/:id'', handlerReference = H_deleteTodo \<rparr>,
      \<lparr> httpMethod = ''PUT'', pathPattern = ''/todos/:id/complete'',
        handlerReference = H_completeTodo \<rparr>]"

text \<open>The calls of \<^verbatim>\<open>SubTodoController.registerRoutes\<close>, in their order.\<close>

definition SubTodoController_routes :: "handler Route list" where
  "SubTodoController_routes =
     [\<lparr> httpMethod = ''POST'', pathPattern = ''/todos/:id/subtodos'',
        handlerReference = H_createSubtodo \<rparr>,
      \<lparr> httpMethod = ''GET'', pathPattern = ''/todos/:id/subtodos'',
        handlerReference = H_getSubTodoList \<rparr>,
      \<lparr> httpMethod = ''PUT'', pathPattern = ''/todos/:id/subtodos/:subid/complete'',
        handlerReference = H_completeSubTodo \<rparr>]"

text \<open>
  Modelled from the spec: the matching of the \<^verbatim>\<open>Router\<close>, which is not among the sources.
  Section 3: a segment of a pattern is a literal or a dynamic capture, marked by its
  prefix, the colon of \<^verbatim>\<open>:id\<close>.
\<close>

definition is_dynamic :: "string \<Rightarrow> bool" where
  "is_dynamic seg = (seg \<noteq> [] \<and> hd seg = CHR '':'')"

text \<open>
  Modelled from the spec: the \<^verbatim>\<open>Router\<close> is not among the sources. Section 4.1: a
  literal segment is tested for equality, a dynamic segment accepts unconditionally.
\<close>

definition segment_matches :: "string \<Rightarrow> string \<Rightarrow> bool" where
  "segment_matches pat seg = (is_dynamic pat \<or> pat = seg)"

text \<open>
  Modelled from the spec: the \<^verbatim>\<open>Router\<close> is not among the sources. Section 4.1: the
  path is split into segments on \<^verbatim>\<open>/\<close>, the segment counts are compared, and the
  segments are compared one by one.
\<close>

definition path_matches :: "string \<Rightarrow> string \<Rightarrow> bool" where
  "path_matches pattern path =
     (let ps = str_split pattern CHR ''/''; ss = str_split path CHR ''/''
      in length ps = length ss \<and> list_all2 segment_matches ps ss)"

text \<open>
  Modelled from the spec: the \<^verbatim>\<open>Router\<close> is not among the sources. Sections 3 and 4.1:
  among the routes whose method is the request's, in registration order, the first whose
  pattern matches the path is selected.
\<close>

fun find_route :: "'h Route list \<Rightarrow> string \<Rightarrow> string \<Rightarrow> 'h Route option" where
  "find_route [] m path = None"
| "find_route (r # rs) m path =
     (if httpMethod r = m \<and> path_matches (pathPattern r) path then Some r
      else find_route rs m path)"

text \<open>
  Modelled from the spec: the server that builds the router and registers the two
  controllers is not among the sources. The routes are those of the controllers, the
  todo routes before the subtodo routes as in the route table of section 6.
\<close>

definition registered_routes :: "handler Route list" where
  "registered_routes = TodoController_routes @ SubTodoController_routes"

text \<open>
  Modelled from the spec: the outcome of \<^verbatim>\<open>dispatch\<close>, which is not among the sources.
  Sections 4.1 and 7: a matching route has its handler invoked; when no route matches,
  the router responds with a 404 whose message is \<^verbatim>\<open>Invalid route: <METHOD> <path>\<close>,
  with no payload, no template and no redirect.
\<close>

datatype ('h, 'p) dispatched = Invoke 'h | Respond "'p ResponseProps"

definition dispatch :: "'h Route list \<Rightarrow> string \<Rightarrow> string \<Rightarrow> ('h, 'p) dispatched" where
  "dispatch routes m path =
     (case find_route routes m path of
        Some r \<Rightarrow> Invoke (handlerReference r)
      | None \<Rightarrow>
          Respond \<lparr> statusCode = NotFound,
                    message = ''Invalid route: '' @ m @ '' '' @ path,
                    payload = None, template = None, redirect = None \<rparr>)"



section \<open>The store\<close>

subsection \<open>Tables\<close>

text \<open>
  The two tables of \<^verbatim>\<open>init.sql\<close>. A column that may be \<^verbatim>\<open>NULL\<close> is an \<open>option\<close>;
  \<^verbatim>\<open>id\<close> is \<^verbatim>\<open>SERIAL\<close>, drawn from the table's sequence.
\<close>

record todo_row =
  tr_id :: int
  tr_title :: string
  tr_description :: string
  tr_status :: todo_status
  tr_due_at :: "Date option"
  tr_created_at :: Date
  tr_completed_at :: "Date option"
  tr_edited_at :: "Date option"

record subtodo_row =
  sr_id :: int
  sr_title :: string
  sr_status :: todo_status
  sr_created_at :: Date
  sr_completed_at :: "Date option"
  sr_edited_at :: "Date option"
  sr_todo_id :: "int option"

record store =
  todos :: "todo_row list"
  subtodos :: "subtodo_row list"
  todos_id_seq :: int
  subtodos_id_seq :: int

subsection \<open>Statements, failures and what a handler leaves behind\<close>

text \<open>
  What can be thrown: a \<^verbatim>\<open>TypeError\<close> (a property read on \<^verbatim>\<open>null\<close>), an error of the
  database or its driver, the two rejections the SubTodo model raises itself, and
  \<open>NoRow\<close> for \<^verbatim>\<open>Todo.update\<close> finding no row, where the code hands \<^verbatim>\<open>undefined\<close> to
  \<^verbatim>\<open>convertToCase\<close>, a utility that is not among the sources.
\<close>

datatype error = TypeError | DbError | SubTodoNotCreated | SubTodoNotUpdated | NoRow

text \<open>The statements the models issue, as they are logged.\<close>

datatype statement =
  SelectTodoById jsnum
| SelectTodos "string option" string string
| UpdateTodoById "jsnum option"
| DeleteTodoById "jsnum option"
| SelectSubTodosByTodoId jsnum
| SelectSubTodoById jsnum
| InsertSubTodo
| UpdateSubTodoById jsnum

text \<open>
  The payloads the handlers send: \<^verbatim>\<open>{ todos }\<close>, \<^verbatim>\<open>{ todo, subtodos }\<close> and
  \<^verbatim>\<open>{ todo }\<close>, over the properties of a todo.
\<close>

record TodoProps =
  tp_id :: "jsnum option"
  tp_title :: string
  tp_description :: string
  tp_status :: todo_status
  tp_dueAt :: "Date option"
  tp_createdAt :: Date
  tp_completedAt :: "Date option"
  tp_editedAt :: "Date option"
  tp_subTodos :: "jsnum SubTodo list option"

record Todo =
  todo_props :: TodoProps

datatype payload =
  P_todos "TodoProps list"
| P_todo_subtodos TodoProps "jsnum SubTodo list option"
| P_todo TodoProps

text \<open>
  The world a handler runs in: the store; for each statement still to come, whether the
  database fails on it (a statement past the end of the list does not fail); the
  statements issued so far; and the descriptors passed to \<^verbatim>\<open>res.send\<close> so far, each
  call taken to return normally.
\<close>

record world =
  store :: store
  faults :: "bool list"
  issued :: "statement list"
  sent :: "payload ResponseProps list"

text \<open>
  One statement: it is logged and uses up one entry of \<open>faults\<close>; unless that entry says
  it fails, its meaning \<open>sem\<close> runs on the store and either throws or gives an answer
  and the store afterwards. Where the code reserves a connection, runs its statement on
  it and releases it, the three are this one step.
\<close>

definition sql ::
  "statement \<Rightarrow> (store \<Rightarrow> error + 'a \<times> store) \<Rightarrow> world \<Rightarrow> (error + 'a) \<times> world" where
  "sql st sem w =
     (let w1 = w\<lparr>issued := issued w @ [st], faults := tl (faults w)\<rparr>
      in if faults w \<noteq> [] \<and> hd (faults w) then (Inl DbError, w1)
         else
           (case sem (store w) of
              Inl e \<Rightarrow> (Inl e, w1)
            | Inr (a, s') \<Rightarrow> (Inr a, w1\<lparr>store := s'\<rparr>)))"

definition res_send :: "payload ResponseProps \<Rightarrow> world \<Rightarrow> world" where
  "res_send p w = w\<lparr>sent := sent w @ [p]\<rparr>"

text \<open>
  A number bound to an \<^verbatim>\<open>INTEGER\<close> column: the database takes it when it is an
  integer within 32 bits, and rejects the statement otherwise.
\<close>

definition as_int4 :: "jsnum \<Rightarrow> int option" where
  "as_int4 n =
     (case n of
        Fin q \<Rightarrow>
          if q = of_int \<lfloor>q\<rfloor> \<and> - 2147483648 \<le> \<lfloor>q\<rfloor> \<and> \<lfloor>q\<rfloor> \<le> 2147483647
          then Some \<lfloor>q\<rfloor> else None
      | _ \<Rightarrow> None)"

definition num_of_int :: "int \<Rightarrow> jsnum" where
  "num_of_int i = Fin (of_int i)"

subsection \<open>The SubTodo model\<close>

text \<open>The properties built from a row, as \<^verbatim>\<open>create\<close>, \<^verbatim>\<open>read\<close> and \<^verbatim>\<open>readByTodoId\<close> do.\<close>

definition subtodo_of_row :: "subtodo_row \<Rightarrow> jsnum SubTodo" where
  "subtodo_of_row r =
     \<lparr> props =
         \<lparr> sp_id = Some (num_of_int (sr_id r)),
           sp_title = sr_title r,
           sp_status = sr_status r,
           sp_createdAt = sr_created_at r,
           sp_completedAt = sr_completed_at r,
           sp_todoId = map_option num_of_int (sr_todo_id r) \<rparr> \<rparr>"

text \<open>
  \<^verbatim>\<open>SubTodo.create(sql, props)\<close>, called as the controller calls it, with a title that
  is a string and a \<^verbatim>\<open>todoId\<close> that is a number: the insert binds \<^verbatim>\<open>title || null\<close>, the status, no
  completion date, the creation date and \<^verbatim>\<open>todoId || null\<close>. The table wants a title
  that is not \<^verbatim>\<open>NULL\<close> and has at most 255 characters, and a \<^verbatim>\<open>todo_id\<close> that is
  \<^verbatim>\<open>NULL\<close> or the id of a todo. The row returned has the next id of the sequence.
\<close>

definition insert_subtodo ::
  "string \<Rightarrow> todo_status \<Rightarrow> Date \<Rightarrow> jsnum \<Rightarrow> store \<Rightarrow> error + subtodo_row list \<times> store" where
  "insert_subtodo title status createdAt todoId s =
     (let falsy_id = (todoId = NaN \<or> todoId = Fin 0)
      in if title = [] \<or> 255 < length title then Inl DbError
         else if \<not> falsy_id \<and> as_int4 todoId = None then Inl DbError
         else if \<not> falsy_id \<and> the (as_int4 todoId) \<notin> tr_id ` set (todos s) then Inl DbError
         else
           (let r = \<lparr> sr_id = subtodos_id_seq s, sr_title = title, sr_status = status,
                      sr_created_at = createdAt, sr_completed_at = None, sr_edited_at = None,
                      sr_todo_id = (if falsy_id then None else as_int4 todoId) \<rparr>
            in Inr ([r], s\<lparr>subtodos := subtodos s @ [r],
                           subtodos_id_seq := subtodos_id_seq s + 1\<rparr>)))"

definition SubTodo_create ::
  "string \<Rightarrow> todo_status \<Rightarrow> Date \<Rightarrow> jsnum \<Rightarrow> world \<Rightarrow> (error + jsnum SubTodo) \<times> world" where
  "SubTodo_create title status createdAt todoId w =
     (case sql InsertSubTodo (insert_subtodo title status createdAt todoId) w of
        (Inl e, w1) \<Rightarrow> (Inl e, w1)
      | (Inr result, w1) \<Rightarrow>
          (case result of
             r # rs \<Rightarrow> (Inr (subtodo_of_row r), w1)
           | [] \<Rightarrow> (Inl SubTodoNotCreated, w1)))"

text \<open>\<^verbatim>\<open>SubTodo.read(sql, id)\<close>: the subtodo with that id, or \<^verbatim>\<open>null\<close>.\<close>

definition select_subtodo_by_id :: "jsnum \<Rightarrow> store \<Rightarrow> error + subtodo_row list \<times> store" where
  "select_subtodo_by_id n s =
     (case as_int4 n of
        None \<Rightarrow> Inl DbError
      | Some i \<Rightarrow> Inr (filter (\<lambda>r. sr_id r = i) (subtodos s), s))"

definition SubTodo_read :: "jsnum \<Rightarrow> world \<Rightarrow> (error + jsnum SubTodo option) \<times> world" where
  "SubTodo_read n w =
     (case sql (SelectSubTodoById n) (select_subtodo_by_id n) w of
        (Inl e, w1) \<Rightarrow> (Inl e, w1)
      | (Inr result, w1) \<Rightarrow>
          (case result of
             [] \<Rightarrow> (Inr None, w1)
           | r # rs \<Rightarrow> (Inr (Some (subtodo_of_row r)), w1)))"

text \<open>\<^verbatim>\<open>SubTodo.readByTodoId(sql, todoId)\<close>.\<close>

definition select_subtodos_by_todo_id ::
  "jsnum \<Rightarrow> store \<Rightarrow> error + subtodo_row list \<times> store" where
  "select_subtodos_by_todo_id n s =
     (case as_int4 n of
        None \<Rightarrow> Inl DbError
      | Some i \<Rightarrow> Inr (filter (\<lambda>r. sr_todo_id r = Some i) (subtodos s), s))"

definition SubTodo_readByTodoId ::
  "jsnum \<Rightarrow> world \<Rightarrow> (error + jsnum SubTodo list) \<times> world" where
  "SubTodo_readByTodoId n w =
     (case sql (SelectSubTodosByTodoId n) (select_subtodos_by_todo_id n) w of
        (Inl e, w1) \<Rightarrow> (Inl e, w1)
      | (Inr result, w1) \<Rightarrow> (Inr (map subtodo_of_row result), w1))"

text \<open>
  \<^verbatim>\<open>markComplete()\<close> on a SubTodo is \<^verbatim>\<open>update({status: "complete", completedAt: new
  Date()})\<close>. \<^verbatim>\<open>update\<close> returns at once when the instance has no id; \<^verbatim>\<open>toPartialEntity\<close>
  keeps both fields (a status and a date are truthy), so the statement sets \<^verbatim>\<open>status\<close>
  and \<^verbatim>\<open>completed_at\<close> of the row with that id; no row returned is the rejection
  \<^verbatim>\<open>SubTodo not updated\<close>; otherwise the two fields are assigned to \<^verbatim>\<open>this.props\<close>.
\<close>

definition update_subtodo_complete ::
  "jsnum \<Rightarrow> Date \<Rightarrow> store \<Rightarrow> error + subtodo_row list \<times> store" where
  "update_subtodo_complete n now s =
     (case as_int4 n of
        None \<Rightarrow> Inl DbError
      | Some i \<Rightarrow>
          (let upd = (\<lambda>r. if sr_id r = i
                          then r\<lparr>sr_status := complete, sr_completed_at := Some now\<rparr> else r);
               rows = map upd (subtodos s)
           in Inr (filter (\<lambda>r. sr_id r = i) rows, s\<lparr>subtodos := rows\<rparr>)))"

definition SubTodo_markComplete ::
  "Date \<Rightarrow> jsnum SubTodo \<Rightarrow> world \<Rightarrow> (error + jsnum SubTodo) \<times> world" where
  "SubTodo_markComplete now this w =
     (case sp_id (props this) of
        None \<Rightarrow> (Inr this, w)
      | Some n \<Rightarrow>
          (case sql (UpdateSubTodoById n) (update_subtodo_complete n now) w of
             (Inl e, w1) \<Rightarrow> (Inl e, w1)
           | (Inr result, w1) \<Rightarrow>
               if result = [] then (Inl SubTodoNotUpdated, w1)
               else (Inr (this\<lparr>props := (props this)\<lparr>sp_status := complete,
                                                     sp_completedAt := Some now\<rparr>\<rparr>), w1)))"

subsection \<open>The Todo model\<close>

text \<open>
  Modelled from the spec: \<^verbatim>\<open>convertToCase(snakeToCamel, row)\<close> of the case utilities,
  which are not among the sources; the specification has them convert between the
  naming conventions, so a row's columns become the properties of the same names in
  camel case. A row carries no \<^verbatim>\<open>subTodos\<close>.
\<close>

definition todo_props_of_row :: "todo_row \<Rightarrow> TodoProps" where
  "todo_props_of_row r =
     \<lparr> tp_id = Some (num_of_int (tr_id r)),
       tp_title = tr_title r,
       tp_description = tr_description r,
       tp_status = tr_status r,
       tp_dueAt = tr_due_at r,
       tp_createdAt = tr_created_at r,
       tp_completedAt = tr_completed_at r,
       tp_editedAt = tr_edited_at r,
       tp_subTodos = None \<rparr>"

text \<open>
  \<^verbatim>\<open>Todo.read(sql, id)\<close>: the row with that id, \<^verbatim>\<open>null\<close> when there is none, and
  otherwise a second statement for its subtodos, stored in \<^verbatim>\<open>props.subTodos\<close>.
\<close>

definition select_todo_by_id :: "jsnum \<Rightarrow> store \<Rightarrow> error + todo_row list \<times> store" where
  "select_todo_by_id n s =
     (case as_int4 n of
        None \<Rightarrow> Inl DbError
      | Some i \<Rightarrow> Inr (filter (\<lambda>r. tr_id r = i) (todos s), s))"

definition Todo_read :: "jsnum \<Rightarrow> world \<Rightarrow> (error + Todo option) \<times> world" where
  "Todo_read n w =
     (case sql (SelectTodoById n) (select_todo_by_id n) w of
        (Inl e, w1) \<Rightarrow> (Inl e, w1)
      | (Inr result, w1) \<Rightarrow>
          (case result of
             [] \<Rightarrow> (Inr None, w1)
           | row # rest \<Rightarrow>
               (case SubTodo_readByTodoId n w1 of
                  (Inl e, w2) \<Rightarrow> (Inl e, w2)
                | (Inr subTodos, w2) \<Rightarrow>
                    (Inr (Some \<lparr> todo_props =
                                   (todo_props_of_row row)\<lparr>tp_subTodos := Some subTodos\<rparr> \<rparr>),
                     w2))))"

text \<open>
  \<^verbatim>\<open>Partial<TodoProps>\<close> as the callers of \<^verbatim>\<open>update\<close> build it: a field that is
  \<open>None\<close> is a key that is not there.
\<close>

record TodoUpdate =
  up_title :: "string option"
  up_description :: "string option"
  up_status :: "todo_status option"
  up_dueAt :: "Date option"
  up_completedAt :: "Date option"

definition apply_update :: "TodoUpdate \<Rightarrow> Date \<Rightarrow> todo_row \<Rightarrow> todo_row" where
  "apply_update u now r =
     r\<lparr> tr_title := (case up_title u of None \<Rightarrow> tr_title r | Some t \<Rightarrow> t),
        tr_description := (case up_description u of None \<Rightarrow> tr_description r | Some d \<Rightarrow> d),
        tr_status := (case up_status u of None \<Rightarrow> tr_status r | Some st \<Rightarrow> st),
        tr_due_at := (case up_dueAt u of None \<Rightarrow> tr_due_at r | Some d \<Rightarrow> Some d),
        tr_completed_at :=
          (case up_completedAt u of None \<Rightarrow> tr_completed_at r | Some d \<Rightarrow> Some d),
        tr_edited_at := Some now \<rparr>"

text \<open>
  The statement of \<^verbatim>\<open>Todo.update\<close>: it sets the given columns and \<^verbatim>\<open>edited_at\<close> on the
  rows whose id is \<^verbatim>\<open>this.props.id\<close> and returns them. An id that is \<^verbatim>\<open>undefined\<close>
  cannot be bound.
\<close>

definition update_todo_by_id ::
  "jsnum option \<Rightarrow> TodoUpdate \<Rightarrow> Date \<Rightarrow> store \<Rightarrow> error + todo_row list \<times> store" where
  "update_todo_by_id n u now s =
     (case n of
        None \<Rightarrow> Inl DbError
      | Some m \<Rightarrow>
          (case as_int4 m of
             None \<Rightarrow> Inl DbError
           | Some i \<Rightarrow>
               (let rows = map (\<lambda>r. if tr_id r = i then apply_update u now r else r) (todos s)
                in Inr (filter (\<lambda>r. tr_id r = i) rows, s\<lparr>todos := rows\<rparr>))))"

text \<open>
  \<^verbatim>\<open>update(updateProps)\<close>: after the statement,
  \<^verbatim>\<open>this.props = { ...this.props, ...convertToCase(snakeToCamel, row) }\<close> with the first
  row returned, which overwrites every property a row has and keeps \<^verbatim>\<open>subTodos\<close>.
\<close>

definition Todo_update :: "TodoUpdate \<Rightarrow> Date \<Rightarrow> Todo \<Rightarrow> world \<Rightarrow> (error + Todo) \<times> world" where
  "Todo_update u now this w =
     (case sql (UpdateTodoById (tp_id (todo_props this)))
             (update_todo_by_id (tp_id (todo_props this)) u now) w of
        (Inl e, w1) \<Rightarrow> (Inl e, w1)
      | (Inr result, w1) \<Rightarrow>
          (case result of
             [] \<Rightarrow> (Inl NoRow, w1)
           | row # rest \<Rightarrow>
               (Inr (this\<lparr>todo_props :=
                        (todo_props_of_row row)\<lparr>tp_subTodos := tp_subTodos (todo_props this)\<rparr>\<rparr>),
                w1)))"

text \<open>\<^verbatim>\<open>markComplete()\<close>: \<^verbatim>\<open>update({ status: "complete", completedAt: createUTCDate() })\<close>.\<close>

definition Todo_markComplete :: "Date \<Rightarrow> Todo \<Rightarrow> world \<Rightarrow> (error + Todo) \<times> world" where
  "Todo_markComplete now this w =
     Todo_update \<lparr> up_title = None, up_description = None, up_status = Some complete,
                   up_dueAt = None, up_completedAt = Some now \<rparr> now this w"

text \<open>
  \<^verbatim>\<open>delete()\<close>: the rows with the instance's id go, and with them the subtodos that
  refer to them (\<^verbatim>\<open>ON DELETE CASCADE\<close>); the result is \<^verbatim>\<open>result.count === 1\<close>.
\<close>

definition delete_todo_by_id :: "jsnum option \<Rightarrow> store \<Rightarrow> error + nat \<times> store" where
  "delete_todo_by_id n s =
     (case n of
        None \<Rightarrow> Inl DbError
      | Some m \<Rightarrow>
          (case as_int4 m of
             None \<Rightarrow> Inl DbError
           | Some i \<Rightarrow>
               Inr (length (filter (\<lambda>r. tr_id r = i) (todos s)),
                    s\<lparr>todos := filter (\<lambda>r. tr_id r \<noteq> i) (todos s),
                      subtodos := filter (\<lambda>r. sr_todo_id r \<noteq> Some i) (subtodos s)\<rparr>)))"

definition Todo_delete :: "Todo \<Rightarrow> world \<Rightarrow> (error + bool) \<times> world" where
  "Todo_delete this w =
     (case sql (DeleteTodoById (tp_id (todo_props this)))
             (delete_todo_by_id (tp_id (todo_props this))) w of
        (Inl e, w1) \<Rightarrow> (Inl e, w1)
      | (Inr count, w1) \<Rightarrow> (Inr (count = 1), w1))"


section \<open>Controllers\<close>

subsection \<open>What the handlers read and write\<close>

text \<open>Reading \<^verbatim>\<open>req.body.k\<close>: a \<^verbatim>\<open>TypeError\<close> when the body is \<^verbatim>\<open>null\<close>.\<close>

definition read_prop :: "json \<Rightarrow> string \<Rightarrow> error + json option" where
  "read_prop v k = (if v = JNull then Inl TypeError else Inr (get_prop v k))"

text \<open>
  \<^verbatim>\<open>getSearchParams()\<close> is \<^verbatim>\<open>new URL(this.req.url ?? "", `http://${headers.host}`)
  .searchParams\<close>. The \<^verbatim>\<open>URL\<close> constructor is the platform's and is a parameter: given
  the input and the base it gives the query's pairs in order, or \<open>None\<close> when it
  throws. \<^verbatim>\<open>searchParams.get(name)\<close> is the first value under that name, or \<^verbatim>\<open>null\<close>.
\<close>

definition getSearchParams ::
  "(string \<Rightarrow> string \<Rightarrow> (string \<times> string) list option) \<Rightarrow> Request
     \<Rightarrow> error + (string \<times> string) list" where
  "getSearchParams URL_searchParams this =
     (case URL_searchParams
             (case req_url (req this) of None \<Rightarrow> [] | Some u \<Rightarrow> u)
             (''http://'' @ (case hdr_host (req this) of None \<Rightarrow> ''undefined'' | Some h \<Rightarrow> h)) of
        None \<Rightarrow> Inl TypeError
      | Some ps \<Rightarrow> Inr ps)"

text \<open>
  The text of a number inside a template literal. An integer of magnitude up to
  \<open>2 ^ 53\<close> prints as its decimal digits; the digits JavaScript chooses for any other
  finite number are left to the parameter \<open>other_text\<close>.
\<close>

definition digit_char :: "int \<Rightarrow> char" where
  "digit_char d = char_of (48 + d)"

function dec_digits :: "int \<Rightarrow> string" where
  "dec_digits n =
     (if n < 10 then [digit_char n] else dec_digits (n div 10) @ [digit_char (n mod 10)])"
  by pat_completeness auto
termination
  by (relation "measure nat") auto

declare dec_digits.simps [simp del]

definition NumberToString :: "(rat \<Rightarrow> string) \<Rightarrow> jsnum \<Rightarrow> string" where
  "NumberToString other_text n =
     (case n of
        NaN \<Rightarrow> ''NaN''
      | PosInfinity \<Rightarrow> ''Infinity''
      | NegInfinity \<Rightarrow> ''-Infinity''
      | Fin q \<Rightarrow>
          if q = of_int \<lfloor>q\<rfloor> \<and> \<bar>q\<bar> \<le> 9007199254740992
          then (if q < 0 then ''-'' @ dec_digits (- \<lfloor>q\<rfloor>) else dec_digits \<lfloor>q\<rfloor>)
          else other_text q)"

text \<open>A descriptor with a status and a message, and nothing else set.\<close>

definition plain :: "StatusCode \<Rightarrow> string \<Rightarrow> payload ResponseProps" where
  "plain st msg =
     \<lparr> statusCode = st, message = msg, payload = None, template = None, redirect = None \<rparr>"

subsection \<open>TodoController\<close>

definition isSortByValid :: "string \<Rightarrow> bool" where
  "isSortByValid sortBy =
     (sortBy = ''id'' \<or> sortBy = ''title'' \<or> sortBy = ''description'' \<or> sortBy = ''dueAt''
      \<or> sortBy = ''createdAt'' \<or> sortBy = ''updatedAt'')"

definition isOrderByValid :: "string \<Rightarrow> bool" where
  "isOrderByValid orderBy = (orderBy = ''asc'' \<or> orderBy = ''desc'')"

text \<open>
  \<^verbatim>\<open>Todo.readAll(sql, { status }, sortBy, orderBy)\<close> issues one \<^verbatim>\<open>SELECT\<close> whose
  \<^verbatim>\<open>WHERE\<close>, \<^verbatim>\<open>ORDER BY\<close> and direction are there when the filter, the sort key and
  the order are truthy. What the database answers to it (which rows, in which order, or
  a rejection of the statement) is the parameter \<open>select_todos\<close>, given the three values
  and the table. Each row becomes a Todo.
\<close>

definition Todo_readAll ::
  "(string option \<Rightarrow> string \<Rightarrow> string \<Rightarrow> todo_row list \<Rightarrow> todo_row list option)
     \<Rightarrow> string option \<Rightarrow> string \<Rightarrow> string \<Rightarrow> world \<Rightarrow> (error + Todo list) \<times> world" where
  "Todo_readAll select_todos status sortBy orderBy w =
     (case sql (SelectTodos status sortBy orderBy)
             (\<lambda>s. case select_todos status sortBy orderBy (todos s) of
                    None \<Rightarrow> Inl DbError
                  | Some rows \<Rightarrow> Inr (rows, s)) w of
        (Inl e, w1) \<Rightarrow> (Inl e, w1)
      | (Inr rows, w1) \<Rightarrow> (Inr (map (\<lambda>r. \<lparr> todo_props = todo_props_of_row r \<rparr>) rows), w1))"

text \<open>
  \<^verbatim>\<open>getTodoList\<close>. Each of the three validations sends and returns. The \<^verbatim>\<open>catch\<close>
  around \<^verbatim>\<open>Todo.readAll\<close> sends the 500 and does not return: control goes on to the
  send after the \<^verbatim>\<open>try\<close>, with \<^verbatim>\<open>todos\<close> still the empty array. A handler's result is
  \<open>Inl\<close> when it throws, here only when the URL cannot be built.
\<close>

definition getTodoList ::
  "(string \<Rightarrow> string \<Rightarrow> (string \<times> string) list option)
     \<Rightarrow> (string option \<Rightarrow> string \<Rightarrow> string \<Rightarrow> todo_row list \<Rightarrow> todo_row list option)
     \<Rightarrow> Request \<Rightarrow> world \<Rightarrow> (error + unit) \<times> world" where
  "getTodoList URL_searchParams select_todos rq w =
     (case getSearchParams URL_searchParams rq of
        Inl e \<Rightarrow> (Inl e, w)
      | Inr queryParams \<Rightarrow>
          (let statusFilter = map_of queryParams ''status'';
               sortBy = (case map_of queryParams ''sortBy'' of None \<Rightarrow> ''id'' | Some x \<Rightarrow> x);
               orderBy = (case map_of queryParams ''orderBy'' of None \<Rightarrow> ''asc'' | Some x \<Rightarrow> x)
           in if truthy_str statusFilter \<and> statusFilter \<noteq> Some ''incomplete''
                 \<and> statusFilter \<noteq> Some ''complete''
              then (Inr (), res_send (plain BadRequest ''Invalid filter parameter.'') w)
              else if sortBy \<noteq> [] \<and> \<not> isSortByValid sortBy
              then (Inr (), res_send (plain BadRequest ''Invalid sortBy parameter.'') w)
              else if orderBy \<noteq> [] \<and> \<not> isOrderByValid orderBy
              then (Inr (), res_send (plain BadRequest ''Invalid orderBy parameter.'') w)
              else
                (let (found, w2) =
                       (case Todo_readAll select_todos statusFilter sortBy orderBy w of
                          (Inl e, w1) \<Rightarrow>
                            ([], res_send ((plain InternalServerError ''Internal Server Error'')
                                            \<lparr>template := Some ''ErrorView''\<rparr>) w1)
                        | (Inr ts, w1) \<Rightarrow> (ts, w1))
                 in (Inr (),
                     res_send ((plain OK ''Todo list retrieved'')
                                 \<lparr>template := Some ''ListView'',
                                   payload := Some (P_todos (map todo_props found))\<rparr>) w2))))"

text \<open>
  \<^verbatim>\<open>getTodo\<close>. As in \<^verbatim>\<open>getTodoList\<close>, the \<^verbatim>\<open>catch\<close> sends the 500 and falls through
  to the test of \<^verbatim>\<open>todo\<close>, which is still \<^verbatim>\<open>null\<close>.
\<close>

definition getTodo :: "Request \<Rightarrow> world \<Rightarrow> (error + unit) \<times> world" where
  "getTodo rq w =
     (let id = getId rq
      in if isNaN id then (Inr (), res_send (plain BadRequest ''Invalid ID'') w)
         else
           (let (todo, w2) =
                  (case Todo_read id w of
                     (Inl e, w1) \<Rightarrow>
                       (None, res_send ((plain InternalServerError ''Internal Server Error'')
                                          \<lparr>template := Some ''ErrorView''\<rparr>) w1)
                   | (Inr t, w1) \<Rightarrow> (t, w1))
            in case todo of
                 Some t \<Rightarrow>
                   (Inr (),
                    res_send ((plain OK ''Todo retrieved'')
                                \<lparr>template := Some ''ShowView'',
                                  payload := Some (P_todo_subtodos (todo_props t)
                                                     (tp_subTodos (todo_props t)))\<rparr>) w2)
               | None \<Rightarrow> (Inr (), res_send (plain NotFound ''Not found'') w2)))"

text \<open>
  \<^verbatim>\<open>sendFormEdit\<close>. Everything after the id check is inside one \<^verbatim>\<open>try\<close>, whose
  \<^verbatim>\<open>catch\<close> sends \<open>fetch_failed\<close>. When the todo is found the edit form is sent, and
  then the body's \<^verbatim>\<open>_method\<close> is compared with \<^verbatim>\<open>"DELETE"\<close> and with \<^verbatim>\<open>"PUT"\<close>, each
  branch sending again.
\<close>

definition fetch_failed :: "payload ResponseProps" where
  "fetch_failed =
     (plain InternalServerError ''Error while fetching todo for edit'')
       \<lparr>template := Some ''ErrorView''\<rparr>"

definition sendFormEdit :: "Date \<Rightarrow> Request \<Rightarrow> world \<Rightarrow> (error + unit) \<times> world" where
  "sendFormEdit now rq w =
     (let id = getId rq
      in if isNaN id then (Inr (), res_send (plain BadRequest ''Invalid ID'') w)
         else
           (case Todo_read id w of
              (Inl e, w1) \<Rightarrow> (Inr (), res_send fetch_failed w1)
            | (Inr None, w1) \<Rightarrow> (Inr (), res_send (plain NotFound ''Todo not found'') w1)
            | (Inr (Some todo), w1) \<Rightarrow>
                (let w2 = res_send ((plain OK ''Edit Todo'')
                                      \<lparr>template := Some ''EditFormView'',
                                        payload := Some (P_todo (todo_props todo))\<rparr>) w1
                 in case read_prop (body rq) ''_method'' of
                      Inl e \<Rightarrow> (Inr (), res_send fetch_failed w2)
                    | Inr m \<Rightarrow>
                        if m = Some (JStr ''DELETE'') then
                          (case Todo_delete todo w2 of
                             (Inl e, w3) \<Rightarrow> (Inr (), res_send fetch_failed w3)
                           | (Inr deleted, w3) \<Rightarrow>
                               if deleted
                               then (Inr (), res_send ((plain Redirect ''Todo deleted successfully!'')
                                                         \<lparr>redirect := Some ''/todos''\<rparr>) w3)
                               else (Inr (), res_send (plain InternalServerError
                                                         ''Error while deleting todo'') w3))
                        else if m = Some (JStr ''PUT'') then
                          (case Todo_markComplete now todo w2 of
                             (Inl e, w3) \<Rightarrow>
                               (Inr (), res_send (plain InternalServerError
                                                    ''Error while deleting todo'') w3)
                           | (Inr t, w3) \<Rightarrow>
                               (Inr (), res_send ((plain Redirect ''Todo completed successfully!'')
                                                    \<lparr>redirect := Some ''/todos''\<rparr>) w3))
                        else (Inr (), w2))))"

subsection \<open>SubTodoController\<close>

definition internal_error :: "payload ResponseProps" where
  "internal_error =
     (plain InternalServerError ''Internal Server Error'')\<lparr>template := Some ''ErrorView''\<rparr>"

text \<open>
  \<^verbatim>\<open>createSubtodo\<close>, all inside one \<^verbatim>\<open>try\<close> whose \<^verbatim>\<open>catch\<close> sends \<open>internal_error\<close>.
  The object built always has the three keys \<^verbatim>\<open>isValidSubTodoProps\<close> asks for and a
  status that is a string, so the check comes down to the title being a string. The id
  from the URL is not tested.
\<close>

definition createSubtodo ::
  "(rat \<Rightarrow> string) \<Rightarrow> Date \<Rightarrow> Request \<Rightarrow> world \<Rightarrow> (error + unit) \<times> world" where
  "createSubtodo other_text now rq w =
     (let todoId = getId rq
      in case read_prop (body rq) ''title'' of
           Inl e \<Rightarrow> (Inr (), res_send internal_error w)
         | Inr (Some (JStr title)) \<Rightarrow>
             (case SubTodo_create title incomplete now todoId w of
                (Inl e, w1) \<Rightarrow> (Inr (), res_send internal_error w1)
              | (Inr newSubtodo, w1) \<Rightarrow>
                  (Inr (),
                   res_send ((plain Redirect ''SubTodo created successfully!'')
                               \<lparr>redirect := Some (''/todos/'' @ NumberToString other_text todoId)\<rparr>)
                     w1))
         | Inr other \<Rightarrow>
             (Inr (),
              res_send (plain BadRequest ''Request body must include title and description.'') w))"

text \<open>\<^verbatim>\<open>completeSubTodo\<close>, all inside one \<^verbatim>\<open>try\<close>.\<close>

definition completeSubTodo ::
  "(rat \<Rightarrow> string) \<Rightarrow> Date \<Rightarrow> Request \<Rightarrow> world \<Rightarrow> (error + unit) \<times> world" where
  "completeSubTodo other_text now rq w =
     (let todoId = getId rq; subtodoId = getSubTodoId rq
      in if isNaN todoId \<or> le_zero todoId
         then (Inr (), res_send (plain BadRequest ''Invalid ID'') w)
         else if isNaN subtodoId \<or> le_zero subtodoId
         then (Inr (), res_send (plain BadRequest ''Invalid ID'') w)
         else
           (case SubTodo_read subtodoId w of
              (Inl e, w1) \<Rightarrow> (Inr (), res_send internal_error w1)
            | (Inr None, w1) \<Rightarrow> (Inr (), res_send (plain NotFound ''SubTodo not found'') w1)
            | (Inr (Some existingSubTodo), w1) \<Rightarrow>
                (case SubTodo_markComplete now existingSubTodo w1 of
                   (Inl e, w2) \<Rightarrow> (Inr (), res_send internal_error w2)
                 | (Inr marked, w2) \<Rightarrow>
                     (Inr (),
                      res_send ((plain Redirect ''SubTodo marked as complete!'')
                                  \<lparr>redirect := Some (''/todos/'' @ NumberToString other_text todoId)\<rparr>)
                        w2))))"

section \<open>Properties of the entity conversion\<close>

text \<open>
  C10. For every \<^verbatim>\<open>SubTodoProps\<close> value \<open>p\<close> the conversion round-trips,
  \<^verbatim>\<open>SubTodo.toProps(SubTodo.toEntity(p)) = p\<close>, field for field (id, title, status,
  createdAt, completedAt, todoId), and the instance method \<^verbatim>\<open>toEntity\<close> agrees with the
  static \<^verbatim>\<open>toEntity\<close> applied to the instance's props.
\<close>

theorem SubTodo_roundtrip:
  fixes p :: "'n SubTodoProps" and this :: "'n SubTodo"
  shows "SubTodo_toProps (SubTodo_toEntity p) = p
       \<and> sp_id (SubTodo_toProps (SubTodo_toEntity p)) = sp_id p
       \<and> sp_title (SubTodo_toProps (SubTodo_toEntity p)) = sp_title p
       \<and> sp_status (SubTodo_toProps (SubTodo_toEntity p)) = sp_status p
       \<and> sp_createdAt (SubTodo_toProps (SubTodo_toEntity p)) = sp_createdAt p
       \<and> sp_completedAt (SubTodo_toProps (SubTodo_toEntity p)) = sp_completedAt p
       \<and> sp_todoId (SubTodo_toProps (SubTodo_toEntity p)) = sp_todoId p
       \<and> toEntity this = SubTodo_toEntity (props this)"
  by (simp add: SubTodo_toProps_def SubTodo_toEntity_def toEntity_def)

section \<open>Properties of the response adapter\<close>

lemma str_includes_iff: "str_includes s t \<longleftrightarrow> (\<exists>p q. s = p @ t @ q)"
proof (induction s)
  case Nil
  then show ?case by auto
next
  case (Cons c s)
  show ?case
  proof
    assume "str_includes (c # s) t"
    then consider "take (length t) (c # s) = t" | "str_includes s t" by auto
    then show "\<exists>p q. c # s = p @ t @ q"
    proof cases
      case 1
      then have "c # s = [] @ t @ drop (length t) (c # s)"
        by (metis append_Nil append_take_drop_id)
      then show ?thesis by blast
    next
      case 2
      then obtain p q where "s = p @ t @ q" using Cons.IH by blast
      then have "c # s = (c # p) @ t @ q" by simp
      then show ?thesis by blast
    qed
  next
    assume "\<exists>p q. c # s = p @ t @ q"
    then obtain p q where pq: "c # s = p @ t @ q" by blast
    show "str_includes (c # s) t"
    proof (cases p)
      case Nil
      then have "take (length t) (c # s) = t" using pq by simp
      then show ?thesis by simp
    next
      case (Cons a p')
      then have "s = p' @ t @ q" using pq by simp
      then have "str_includes s t" using Cons.IH by blast
      then show ?thesis by simp
    qed
  qed
qed

text \<open>
  C1. For every call to \<^verbatim>\<open>Response.send\<close> with a descriptor \<^verbatim>\<open>{statusCode, message,
  payload, template, redirect}\<close>: if the request accepts HTML and \<^verbatim>\<open>redirect\<close> is set
  (a non-empty string, the test \<^verbatim>\<open>if (redirect)\<close>), the response written is a 302 with a
  \<^verbatim>\<open>Location\<close> header equal to the redirect target and an empty body, whatever the
  template; else if the request accepts HTML and \<^verbatim>\<open>template\<close> is set, the rendered
  template is written with the descriptor's status code and an HTML content type; in
  every other case, a JSON-only client whose descriptor has \<^verbatim>\<open>redirect\<close> set included,
  the response is the descriptor's status code with a JSON content type, the body
  \<^verbatim>\<open>{message, payload}\<close>, and no \<^verbatim>\<open>Location\<close> header. Each response is one
  \<^verbatim>\<open>writeHead\<close> followed by one \<^verbatim>\<open>end\<close>.
\<close>

theorem send_branching:
  fixes p :: "'p ResponseProps"
  shows "(accepts rq ''text/html'' \<and> truthy_str (redirect p) \<longrightarrow>
            (\<exists>target. redirect p = Some target
               \<and> send render rq p = ([writeHead 302 [(''Location'', target)], end_res None], True))
            \<and> written_status (fst (send render rq p)) = Some 302
            \<and> written_header ''Location'' (fst (send render rq p)) = redirect p
            \<and> written_bodies (fst (send render rq p)) = [None])
       \<and> (accepts rq ''text/html'' \<and> \<not> truthy_str (redirect p) \<and> truthy_str (template p) \<longrightarrow>
            (\<forall>name markup. template p = Some name \<and> render name (payload p) = Some markup \<longrightarrow>
               send render rq p =
                 ([writeHead (status_value (statusCode p)) [(''Content-Type'', ''text/html'')],
                   end_res (Some (Markup markup))], True)
               \<and> written_status (fst (send render rq p)) = Some (status_value (statusCode p))
               \<and> written_header ''Content-Type'' (fst (send render rq p)) = Some ''text/html''
               \<and> written_header ''Location'' (fst (send render rq p)) = None
               \<and> written_bodies (fst (send render rq p)) = [Some (Markup markup)]))
       \<and> (\<not> (accepts rq ''text/html'' \<and> (truthy_str (redirect p) \<or> truthy_str (template p))) \<longrightarrow>
            send render rq p =
              ([writeHead (status_value (statusCode p)) [(''Content-Type'', ''application/json'')],
                end_res (Some (JsonOf (message p) (payload p)))], True)
            \<and> written_status (fst (send render rq p)) = Some (status_value (statusCode p))
            \<and> written_header ''Content-Type'' (fst (send render rq p)) = Some ''application/json''
            \<and> written_header ''Location'' (fst (send render rq p)) = None
            \<and> written_bodies (fst (send render rq p)) = [Some (JsonOf (message p) (payload p))])"
proof (intro conjI impI allI)
  assume h: "accepts rq ''text/html'' \<and> truthy_str (redirect p)"
  then obtain target where t: "redirect p = Some target"
    by (cases "redirect p") auto
  have s: "send render rq p = ([writeHead 302 [(''Location'', target)], end_res None], True)"
    using h t by (simp add: send_def ContentType_HTML_def)
  show "\<exists>target. redirect p = Some target
      \<and> send render rq p = ([writeHead 302 [(''Location'', target)], end_res None], True)"
    using t s by blast
  show "written_status (fst (send render rq p)) = Some 302" by (simp add: s)
  show "written_header ''Location'' (fst (send render rq p)) = redirect p" by (simp add: s t)
  show "written_bodies (fst (send render rq p)) = [None]" by (simp add: s)
next
  fix name markup
  assume h: "accepts rq ''text/html'' \<and> \<not> truthy_str (redirect p) \<and> truthy_str (template p)"
    and r: "template p = Some name \<and> render name (payload p) = Some markup"
  have s: "send render rq p =
      ([writeHead (status_value (statusCode p)) [(''Content-Type'', ''text/html'')],
        end_res (Some (Markup markup))], True)"
    using h r by (simp add: send_def ContentType_HTML_def)
  show "send render rq p =
      ([writeHead (status_value (statusCode p)) [(''Content-Type'', ''text/html'')],
        end_res (Some (Markup markup))], True)"
    by (rule s)
  show "written_status (fst (send render rq p)) = Some (status_value (statusCode p))"
    by (simp add: s)
  show "written_header ''Content-Type'' (fst (send render rq p)) = Some ''text/html''"
    by (simp add: s)
  show "written_header ''Location'' (fst (send render rq p)) = None"
    by (simp add: s)
  show "written_bodies (fst (send render rq p)) = [Some (Markup markup)]"
    by (simp add: s)
next
  assume h: "\<not> (accepts rq ''text/html'' \<and> (truthy_str (redirect p) \<or> truthy_str (template p)))"
  have s: "send render rq p =
      ([writeHead (status_value (statusCode p)) [(''Content-Type'', ''application/json'')],
        end_res (Some (JsonOf (message p) (payload p)))], True)"
    using h by (auto simp add: send_def ContentType_HTML_def ContentType_JSON_def)
  show "send render rq p =
      ([writeHead (status_value (statusCode p)) [(''Content-Type'', ''application/json'')],
        end_res (Some (JsonOf (message p) (payload p)))], True)"
    by (rule s)
  show "written_status (fst (send render rq p)) = Some (status_value (statusCode p))"
    by (simp add: s)
  show "written_header ''Content-Type'' (fst (send render rq p)) = Some ''application/json''"
    by (simp add: s)
  show "written_header ''Location'' (fst (send render rq p)) = None"
    by (simp add: s)
  show "written_bodies (fst (send render rq p)) = [Some (JsonOf (message p) (payload p))]"
    by (simp add: s)
qed

theorem send_branching_witness:
  "send (\<lambda>t p. Some ''<p>shown</p>'')
     \<lparr> req = \<lparr> req_method = ''GET'', req_url = Some ''/todos/1'', hdr_accept = Some ''text/html,*/*'',
               hdr_content_type = None, hdr_host = Some ''localhost:3000'' \<rparr>,
       body = JObj [] \<rparr>
     \<lparr> statusCode = Redirect, message = ''Todo updated successfully!'', payload = (None :: unit option),
       template = Some ''ShowView'', redirect = Some ''/todos/1'' \<rparr>
     = ([writeHead 302 [(''Location'', ''/todos/1'')], end_res None], True)
   \<and> send (\<lambda>t p. Some ''<p>shown</p>'')
     \<lparr> req = \<lparr> req_method = ''GET'', req_url = Some ''/todos/1'', hdr_accept = Some ''text/html,*/*'',
               hdr_content_type = None, hdr_host = Some ''localhost:3000'' \<rparr>,
       body = JObj [] \<rparr>
     \<lparr> statusCode = OK, message = ''Todo retrieved'', payload = Some (),
       template = Some ''ShowView'', redirect = None \<rparr>
     = ([writeHead 200 [(''Content-Type'', ''text/html'')], end_res (Some (Markup ''<p>shown</p>''))],
        True)
   \<and> send (\<lambda>t p. Some ''<p>shown</p>'')
     \<lparr> req = \<lparr> req_method = ''GET'', req_url = Some ''/todos/1'', hdr_accept = Some ''application/json'',
               hdr_content_type = None, hdr_host = Some ''localhost:3000'' \<rparr>,
       body = JObj [] \<rparr>
     \<lparr> statusCode = Redirect, message = ''Todo updated successfully!'', payload = (None :: unit option),
       template = None, redirect = Some ''/todos/1'' \<rparr>
     = ([writeHead 302 [(''Content-Type'', ''application/json'')],
         end_res (Some (JsonOf ''Todo updated successfully!'' None))], True)"
proof -
  let ?render = "\<lambda>(t :: string) (p :: unit option). Some ''<p>shown</p>''"
  let ?html = "\<lparr> req = \<lparr> req_method = ''GET'', req_url = Some ''/todos/1'',
      hdr_accept = Some ''text/html,*/*'', hdr_content_type = None,
      hdr_host = Some ''localhost:3000'' \<rparr>, body = JObj [] \<rparr>"
  let ?json = "\<lparr> req = \<lparr> req_method = ''GET'', req_url = Some ''/todos/1'',
      hdr_accept = Some ''application/json'', hdr_content_type = None,
      hdr_host = Some ''localhost:3000'' \<rparr>, body = JObj [] \<rparr>"
  have a: "accepts ?html ''text/html''" by (simp add: accepts_def)
  have b: "\<not> accepts ?json ''text/html''" by (simp add: accepts_def)
  show ?thesis
    using a b
      send_branching [of ?html "\<lparr> statusCode = Redirect, message = ''Todo updated successfully!'',
        payload = (None :: unit option), template = Some ''ShowView'', redirect = Some ''/todos/1'' \<rparr>" ?render]
      send_branching [of ?html "\<lparr> statusCode = OK, message = ''Todo retrieved'',
        payload = Some (), template = Some ''ShowView'', redirect = None \<rparr>" ?render]
      send_branching [of ?json "\<lparr> statusCode = Redirect, message = ''Todo updated successfully!'',
        payload = (None :: unit option), template = None, redirect = Some ''/todos/1'' \<rparr>" ?render]
    by simp
qed

section \<open>Properties of the request adapter\<close>

text \<open>
  C4, as the code has it. \<^verbatim>\<open>Request.getMethod()\<close> returns the value of the parsed body's
  \<^verbatim>\<open>method\<close> field whenever that field is present and not \<^verbatim>\<open>null\<close>, an empty string
  included, and otherwise the transport-level HTTP method; before \<^verbatim>\<open>parseBody\<close> has run
  (the body still the empty default) it returns the transport-level method.
\<close>

theorem getMethod_override:
  "(\<forall>v. get_prop (body this) ''method'' = Some v \<and> v \<noteq> JNull \<longrightarrow> getMethod this = v)
   \<and> (get_prop (body this) ''method'' = None \<or> get_prop (body this) ''method'' = Some JNull
        \<longrightarrow> getMethod this = JStr (req_method (req this)))
   \<and> getMethod (new_Request rq) = JStr (req_method rq)"
proof (intro conjI allI impI)
  fix v
  assume h: "get_prop (body this) ''method'' = Some v \<and> v \<noteq> JNull"
  then obtain kvs where b: "body this = JObj kvs"
    by (cases "body this") auto
  show "getMethod this = v"
    using h b by (cases v) (simp_all add: getMethod_def)
next
  assume "get_prop (body this) ''method'' = None \<or> get_prop (body this) ''method'' = Some JNull"
  then show "getMethod this = JStr (req_method (req this))"
    by (auto simp: getMethod_def)
next
  show "getMethod (new_Request rq) = JStr (req_method rq)"
    by (simp add: getMethod_def new_Request_def)
qed

theorem getMethod_override_witness:
  "getMethod \<lparr> req = \<lparr> req_method = ''POST'', req_url = Some ''/todos/1'', hdr_accept = None,
                        hdr_content_type = Some ''application/x-www-form-urlencoded'',
                        hdr_host = None \<rparr>,
                body = JObj [(''method'', JStr ''PUT''), (''title'', JStr ''t'')] \<rparr> = JStr ''PUT''
   \<and> getMethod \<lparr> req = \<lparr> req_method = ''POST'', req_url = Some ''/todos/1'', hdr_accept = None,
                        hdr_content_type = Some ''application/json'', hdr_host = None \<rparr>,
                body = JObj [(''title'', JStr ''t'')] \<rparr> = JStr ''POST''"
  using
    getMethod_override [of "\<lparr> req = \<lparr> req_method = ''POST'', req_url = Some ''/todos/1'',
        hdr_accept = None, hdr_content_type = Some ''application/x-www-form-urlencoded'',
        hdr_host = None \<rparr>,
      body = JObj [(''method'', JStr ''PUT''), (''title'', JStr ''t'')] \<rparr>"]
    getMethod_override [of "\<lparr> req = \<lparr> req_method = ''POST'', req_url = Some ''/todos/1'',
        hdr_accept = None, hdr_content_type = Some ''application/json'', hdr_host = None \<rparr>,
      body = JObj [(''title'', JStr ''t'')] \<rparr>"]
  by simp

text \<open>
  C4 as stated asks for the transport method when the override is present and empty. A
  form that posts \<^verbatim>\<open>method=\<close> has the field present and empty, and \<^verbatim>\<open>getMethod\<close>
  returns the empty string, not \<^verbatim>\<open>POST\<close>.
\<close>

theorem getMethod_empty_override_counterexample:
  "get_prop (body \<lparr> req = \<lparr> req_method = ''POST'', req_url = Some ''/todos/1'', hdr_accept = None,
                        hdr_content_type = Some ''application/x-www-form-urlencoded'',
                        hdr_host = None \<rparr>,
                body = JObj [(''method'', JStr '''')] \<rparr>) ''method'' = Some (JStr '''')
   \<and> getMethod \<lparr> req = \<lparr> req_method = ''POST'', req_url = Some ''/todos/1'', hdr_accept = None,
                        hdr_content_type = Some ''application/x-www-form-urlencoded'',
                        hdr_host = None \<rparr>,
                body = JObj [(''method'', JStr '''')] \<rparr> = JStr ''''
   \<and> getMethod \<lparr> req = \<lparr> req_method = ''POST'', req_url = Some ''/todos/1'', hdr_accept = None,
                        hdr_content_type = Some ''application/x-www-form-urlencoded'',
                        hdr_host = None \<rparr>,
                body = JObj [(''method'', JStr '''')] \<rparr> \<noteq> JStr ''POST''"
  by (simp add: getMethod_def)

text \<open>
  C6. \<^verbatim>\<open>Request.parseBody()\<close> buffers the entire body (the parse is applied to the
  concatenation of all chunks), parses it as URL-encoded pairs if the \<^verbatim>\<open>Content-Type\<close>
  header includes \<^verbatim>\<open>x-www-form-urlencoded\<close> and as JSON otherwise; it rejects with the
  error string exactly when that parse throws, leaving the body as it was, and on
  success it stores the parsed value in the request's \<^verbatim>\<open>body\<close> field and resolves with it.
\<close>

theorem parseBody_outcome:
  "((\<exists>ct. hdr_content_type (req this) = Some ct \<and> str_includes ct ''x-www-form-urlencoded'') \<longrightarrow>
      parseBody JSON_parse URLSearchParams this chunks =
        (Inr (fromEntries (URLSearchParams (concat chunks))),
         this\<lparr>body := fromEntries (URLSearchParams (concat chunks))\<rparr>))
   \<and> (\<not> (\<exists>ct. hdr_content_type (req this) = Some ct \<and> str_includes ct ''x-www-form-urlencoded'') \<longrightarrow>
        (\<forall>v. JSON_parse (concat chunks) = Some v \<longrightarrow>
           parseBody JSON_parse URLSearchParams this chunks = (Inr v, this\<lparr>body := v\<rparr>))
        \<and> (JSON_parse (concat chunks) = None \<longrightarrow>
             parseBody JSON_parse URLSearchParams this chunks =
               (Inl ''Request body must be valid JSON'', this)))
   \<and> (isl (fst (parseBody JSON_parse URLSearchParams this chunks)) \<longleftrightarrow>
        \<not> (\<exists>ct. hdr_content_type (req this) = Some ct \<and> str_includes ct ''x-www-form-urlencoded'')
        \<and> JSON_parse (concat chunks) = None)
   \<and> (\<forall>b. fst (parseBody JSON_parse URLSearchParams this chunks) = Inr b \<longrightarrow>
         body (snd (parseBody JSON_parse URLSearchParams this chunks)) = b
         \<and> req (snd (parseBody JSON_parse URLSearchParams this chunks)) = req this)"
  by (cases "hdr_content_type (req this)"; cases "JSON_parse (concat chunks)")
     (auto simp: parseBody_def Let_def)

theorem parseBody_outcome_witness:
  "parseBody (\<lambda>s. if s = ''{\"title\":\"a\"}'' then Some (JObj [(''title'', JStr ''a'')]) else None)
      (\<lambda>s. [(''title'', ''a''), (''method'', ''PUT'')])
      (new_Request \<lparr> req_method = ''POST'', req_url = Some ''/todos'', hdr_accept = None,
         hdr_content_type = Some ''application/json'', hdr_host = None \<rparr>)
      [''{\"tit'', ''le\":\"a\"}'']
    = (Inr (JObj [(''title'', JStr ''a'')]),
       \<lparr> req = \<lparr> req_method = ''POST'', req_url = Some ''/todos'', hdr_accept = None,
           hdr_content_type = Some ''application/json'', hdr_host = None \<rparr>,
         body = JObj [(''title'', JStr ''a'')] \<rparr>)
   \<and> parseBody (\<lambda>s. if s = ''{\"title\":\"a\"}'' then Some (JObj [(''title'', JStr ''a'')]) else None)
      (\<lambda>s. [(''title'', ''a''), (''method'', ''PUT'')])
      (new_Request \<lparr> req_method = ''POST'', req_url = Some ''/todos'', hdr_accept = None,
         hdr_content_type = Some ''application/json'', hdr_host = None \<rparr>)
      [''{\"tit'']
    = (Inl ''Request body must be valid JSON'',
       \<lparr> req = \<lparr> req_method = ''POST'', req_url = Some ''/todos'', hdr_accept = None,
           hdr_content_type = Some ''application/json'', hdr_host = None \<rparr>,
         body = JObj [] \<rparr>)
   \<and> parseBody (\<lambda>s. if s = ''{\"title\":\"a\"}'' then Some (JObj [(''title'', JStr ''a'')]) else None)
      (\<lambda>s. [(''title'', ''a''), (''method'', ''PUT'')])
      (new_Request \<lparr> req_method = ''POST'', req_url = Some ''/todos'', hdr_accept = None,
         hdr_content_type = Some ''application/x-www-form-urlencoded; charset=UTF-8'', hdr_host = None \<rparr>)
      [''title=a&'', ''method=PUT'']
    = (Inr (JObj [(''title'', JStr ''a''), (''method'', JStr ''PUT'')]),
       \<lparr> req = \<lparr> req_method = ''POST'', req_url = Some ''/todos'', hdr_accept = None,
           hdr_content_type = Some ''application/x-www-form-urlencoded; charset=UTF-8'', hdr_host = None \<rparr>,
         body = JObj [(''title'', JStr ''a''), (''method'', JStr ''PUT'')] \<rparr>)"
proof -
  let ?J = "\<lambda>s. if s = ''{\"title\":\"a\"}'' then Some (JObj [(''title'', JStr ''a'')]) else None"
  let ?U = "\<lambda>s :: string. [(''title'', ''a''), (''method'', ''PUT'')]"
  let ?json = "new_Request \<lparr> req_method = ''POST'', req_url = Some ''/todos'', hdr_accept = None,
         hdr_content_type = Some ''application/json'', hdr_host = None \<rparr>"
  let ?form = "new_Request \<lparr> req_method = ''POST'', req_url = Some ''/todos'', hdr_accept = None,
         hdr_content_type = Some ''application/x-www-form-urlencoded; charset=UTF-8'', hdr_host = None \<rparr>"
  have f: "\<exists>ct. hdr_content_type (req ?form) = Some ct \<and> str_includes ct ''x-www-form-urlencoded''"
    by (simp add: new_Request_def)
  have j: "\<not> (\<exists>ct. hdr_content_type (req ?json) = Some ct \<and> str_includes ct ''x-www-form-urlencoded'')"
    by (simp add: new_Request_def)
  show ?thesis
    using f j
      parseBody_outcome [of ?json ?J ?U "[''{\"tit'', ''le\":\"a\"}'']"]
      parseBody_outcome [of ?json ?J ?U "[''{\"tit'']"]
      parseBody_outcome [of ?form ?J ?U "[''title=a&'', ''method=PUT'']"]
    by (simp add: new_Request_def fromEntries_def)
qed

section \<open>Properties of the router\<close>




text \<open>
  C7. For every request whose method and path match no registered route, dispatch
  responds with status 404, a message exactly of the form
  \<^verbatim>\<open>Invalid route: <METHOD> <path>\<close> and no payload; sent to any client, that is a 404
  with a JSON body holding the message and no payload key. For example GET
  \<^verbatim>\<open>/unregistered\<close> yields the message \<^verbatim>\<open>Invalid route: GET /unregistered\<close>.
\<close>

theorem unmatched_route_404:
  assumes "find_route routes m path = None"
  shows "(dispatch routes m path :: ('h, 'p) dispatched) =
           Respond \<lparr> statusCode = NotFound, message = ''Invalid route: '' @ m @ '' '' @ path,
                     payload = None, template = None, redirect = None \<rparr>
       \<and> (\<forall>d. (dispatch routes m path :: ('h, 'p) dispatched) = Respond d \<longrightarrow>
             status_value (statusCode d) = 404
             \<and> message d = ''Invalid route: '' @ m @ '' '' @ path
             \<and> payload d = None
             \<and> (\<forall>render client. send render client d =
                   ([writeHead 404 [(''Content-Type'', ''application/json'')],
                     end_res (Some (JsonOf (''Invalid route: '' @ m @ '' '' @ path) None))], True)))"
  using assms by (auto simp: dispatch_def send_def ContentType_JSON_def)

theorem unmatched_route_404_witness:
  "find_route registered_routes ''GET'' ''/unregistered'' = None
   \<and> (dispatch registered_routes ''GET'' ''/unregistered'' :: (handler, unit) dispatched) =
       Respond \<lparr> statusCode = NotFound, message = ''Invalid route: GET /unregistered'',
                 payload = None, template = None, redirect = None \<rparr>"
proof -
  have h: "find_route registered_routes ''GET'' ''/unregistered'' = None"
    by (simp add: registered_routes_def TodoController_routes_def SubTodoController_routes_def
        path_matches_def segment_matches_def is_dynamic_def)
  show ?thesis
    using h unmatched_route_404 [OF h, where ?'p = unit] by simp
qed

section \<open>Properties of the number conversion\<close>

lemma char_eq_iff_code: "c = d \<longleftrightarrow> (of_char c :: int) = of_char d"
  by (metis of_char_eq_iff)

lemma is_digit_iff: "is_digit c \<longleftrightarrow> DecimalDigit c"
proof -
  have "\<And>n :: int. 48 \<le> n \<and> n \<le> 57
      \<longleftrightarrow> n \<in> {48, 49, 50, 51, 52, 53, 54, 55, 56, 57}"
    by (simp only: insert_iff empty_iff) arith
  then show ?thesis
    by (simp add: is_digit_def DecimalDigit_def char_eq_iff_code [of c])
qed

lemma hex_val_lt_iff:
  "digit_ok b c \<longleftrightarrow>
     (48 \<le> (of_char c :: int) \<and> (of_char c :: int) \<le> 57 \<and> (of_char c :: int) - 48 < b)
     \<or> (97 \<le> (of_char c :: int) \<and> (of_char c :: int) \<le> 102 \<and> (of_char c :: int) - 87 < b)
     \<or> (65 \<le> (of_char c :: int) \<and> (of_char c :: int) \<le> 70 \<and> (of_char c :: int) - 55 < b)"
  unfolding digit_ok_def hex_val_def Let_def
  by auto

lemma range_0_9: "48 \<le> n \<and> n \<le> 57 \<longleftrightarrow> n \<in> {48, 49, 50, 51, 52, 53, 54, 55, 56, 57 :: int}"
  by (simp only: insert_iff empty_iff) arith

lemma range_0_7: "48 \<le> n \<and> n \<le> 55 \<longleftrightarrow> n \<in> {48, 49, 50, 51, 52, 53, 54, 55 :: int}"
  by (simp only: insert_iff empty_iff) arith

lemma range_0_1: "48 \<le> n \<and> n \<le> 49 \<longleftrightarrow> n \<in> {48, 49 :: int}"
  by (simp only: insert_iff empty_iff) arith

lemma range_a_f: "97 \<le> n \<and> n \<le> 102 \<longleftrightarrow> n \<in> {97, 98, 99, 100, 101, 102 :: int}"
  by (simp only: insert_iff empty_iff) arith

lemma range_A_F: "65 \<le> n \<and> n \<le> 70 \<longleftrightarrow> n \<in> {65, 66, 67, 68, 69, 70 :: int}"
  by (simp only: insert_iff empty_iff) arith

lemma digit_ok_10: "digit_ok 10 c \<longleftrightarrow> DecimalDigit c"
proof -
  have "digit_ok 10 c \<longleftrightarrow> 48 \<le> (of_char c :: int) \<and> (of_char c :: int) \<le> 57"
    unfolding hex_val_lt_iff by arith
  also have "\<dots> \<longleftrightarrow> DecimalDigit c"
    unfolding range_0_9 by (simp add: DecimalDigit_def char_eq_iff_code [of c])
  finally show ?thesis .
qed

lemma digit_ok_8: "digit_ok 8 c \<longleftrightarrow> OctalDigit c"
proof -
  have "digit_ok 8 c \<longleftrightarrow> 48 \<le> (of_char c :: int) \<and> (of_char c :: int) \<le> 55"
    unfolding hex_val_lt_iff by arith
  also have "\<dots> \<longleftrightarrow> OctalDigit c"
    unfolding range_0_7 by (simp add: OctalDigit_def char_eq_iff_code [of c])
  finally show ?thesis .
qed

lemma digit_ok_2: "digit_ok 2 c \<longleftrightarrow> BinaryDigit c"
proof -
  have "digit_ok 2 c \<longleftrightarrow> 48 \<le> (of_char c :: int) \<and> (of_char c :: int) \<le> 49"
    unfolding hex_val_lt_iff by arith
  also have "\<dots> \<longleftrightarrow> BinaryDigit c"
    unfolding range_0_1 by (simp add: BinaryDigit_def char_eq_iff_code [of c])
  finally show ?thesis .
qed

lemma digit_ok_16: "digit_ok 16 c \<longleftrightarrow> HexDigit c"
proof -
  have "digit_ok 16 c \<longleftrightarrow>
      (48 \<le> (of_char c :: int) \<and> (of_char c :: int) \<le> 57)
      \<or> (97 \<le> (of_char c :: int) \<and> (of_char c :: int) \<le> 102)
      \<or> (65 \<le> (of_char c :: int) \<and> (of_char c :: int) \<le> 70)"
    unfolding hex_val_lt_iff by arith
  also have "\<dots> \<longleftrightarrow> HexDigit c"
    unfolding range_0_9 range_a_f range_A_F
    by (simp add: HexDigit_def char_eq_iff_code [of c])
  finally show ?thesis .
qed

lemma digits_in_base_iff:
  "digits_in_base b acc ds \<noteq> None \<longleftrightarrow> list_all (digit_ok b) ds"
  by (induction ds arbitrary: acc) (auto simp: digit_ok_def split: option.splits)

lemma number_in_base_iff:
  "number_in_base b ds \<noteq> None \<longleftrightarrow> ds \<noteq> [] \<and> list_all (digit_ok b) ds"
  using digits_in_base_iff [of b 0 ds] by (auto simp: number_in_base_def)

lemma number_in_base_10_iff: "number_in_base 10 ds \<noteq> None \<longleftrightarrow> DecimalDigits ds"
  using number_in_base_iff [of 10 ds]
  by (simp only: DecimalDigits_def digit_ok_10 [abs_def])

lemma not_digit_signs [simp]:
  "\<not> DecimalDigit CHR ''+''" "\<not> DecimalDigit CHR ''-''" "\<not> DecimalDigit CHR ''.''"
  "\<not> DecimalDigit CHR ''e''" "\<not> DecimalDigit CHR ''E''" "\<not> DecimalDigit CHR ''I''"
  by (simp_all add: DecimalDigit_def)

lemma DecimalDigits_Cons: "DecimalDigits (d # ds) \<longleftrightarrow> DecimalDigit d \<and> list_all DecimalDigit ds"
  by (simp add: DecimalDigits_def)

lemma exponent_part_iff: "exponent_part x \<noteq> None \<longleftrightarrow> x = [] \<or> ExponentPart x"
proof (cases x)
  case Nil
  then show ?thesis by (simp add: exponent_part_def)
next
  case (Cons c r)
  show ?thesis
  proof (cases "c = CHR ''e'' \<or> c = CHR ''E''")
    case False
    then show ?thesis using Cons by (auto simp: exponent_part_def ExponentPart_def)
  next
    case True
    show ?thesis
    proof (cases r)
      case Nil
      then show ?thesis using Cons True
        by (auto simp: exponent_part_def ExponentPart_def DecimalDigits_def)
    next
      case (Cons d ds)
      have g: "ExponentPart x \<longleftrightarrow>
          (d = CHR ''+'' \<and> DecimalDigits ds) \<or> (d = CHR ''-'' \<and> DecimalDigits ds)
          \<or> DecimalDigits (d # ds)"
      proof
        assume "ExponentPart x"
        then obtain ind sg ds' where e: "x = ind # sg @ ds'"
            "sg = [] \<or> sg = ''+'' \<or> sg = ''-''" "DecimalDigits ds'"
          by (auto simp: ExponentPart_def)
        then have "d # ds = sg @ ds'" using \<open>x = c # r\<close> Cons by simp
        then show "(d = CHR ''+'' \<and> DecimalDigits ds) \<or> (d = CHR ''-'' \<and> DecimalDigits ds)
          \<or> DecimalDigits (d # ds)"
          using e(2,3) by auto
      next
        assume a: "(d = CHR ''+'' \<and> DecimalDigits ds) \<or> (d = CHR ''-'' \<and> DecimalDigits ds)
          \<or> DecimalDigits (d # ds)"
        then consider "d = CHR ''+''" "DecimalDigits ds" | "d = CHR ''-''" "DecimalDigits ds"
          | "DecimalDigits (d # ds)" by blast
        then show "ExponentPart x"
        proof cases
          case 1
          then have "x = c # ''+'' @ ds" using \<open>x = c # r\<close> Cons by simp
          then show ?thesis unfolding ExponentPart_def using True 1(2) by blast
        next
          case 2
          then have "x = c # ''-'' @ ds" using \<open>x = c # r\<close> Cons by simp
          then show ?thesis unfolding ExponentPart_def using True 2(2) by blast
        next
          case 3
          have "x = c # [] @ (d # ds)" using \<open>x = c # r\<close> Cons by simp
          then show ?thesis unfolding ExponentPart_def using True 3 by blast
        qed
      qed
      have p: "exponent_part x \<noteq> None \<longleftrightarrow>
          (if d = CHR ''+'' then DecimalDigits ds
           else if d = CHR ''-'' then DecimalDigits ds
           else DecimalDigits (d # ds))"
        using \<open>x = c # r\<close> Cons True
        by (auto simp: exponent_part_def number_in_base_10_iff [symmetric])
      show ?thesis
        unfolding p g using \<open>x = c # r\<close>
        by (auto simp: DecimalDigits_Cons)
    qed
  qed
qed

lemma is_digit_eq: "is_digit = DecimalDigit"
  by (rule ext) (rule is_digit_iff)

lemma span_run:
  "list_all P ds \<Longrightarrow> rest = [] \<or> \<not> P (hd rest) \<Longrightarrow>
     takeWhile P (ds @ rest) = ds \<and> dropWhile P (ds @ rest) = rest"
proof (induction ds)
  case Nil
  then show ?case by (cases rest) auto
next
  case (Cons d ds)
  then show ?case by simp
qed

lemma exponent_starts:
  "ex = [] \<or> ExponentPart ex \<Longrightarrow> ex = [] \<or> (\<not> DecimalDigit (hd ex) \<and> hd ex \<noteq> CHR ''.'')"
  by (auto simp: ExponentPart_def)

lemma digits_run_ok: "list_all DecimalDigit ds \<Longrightarrow> digits_in_base 10 acc ds \<noteq> None"
  by (simp only: digits_in_base_iff digit_ok_10 [abs_def])

lemma takeWhile_all: "list_all P (takeWhile P xs)"
  by (induction xs) auto

text \<open>The parser once the two runs of digits and the rest are known.\<close>

lemma unsigned_decimal_split:
  assumes "takeWhile DecimalDigit u = ip" and "dropWhile DecimalDigit u = r1"
    and "has_point = (r1 \<noteq> [] \<and> hd r1 = CHR ''.'')"
    and "fp = (if has_point then takeWhile DecimalDigit (tl r1) else [])"
    and "r2 = (if has_point then dropWhile DecimalDigit (tl r1) else r1)"
  shows "unsigned_decimal u \<noteq> None \<longleftrightarrow> \<not> (ip = [] \<and> fp = []) \<and> exponent_part r2 \<noteq> None"
proof -
  have "list_all DecimalDigit ip" using assms(1) takeWhile_all by metis
  moreover have "list_all DecimalDigit fp"
    unfolding assms(4) using takeWhile_all [of DecimalDigit "tl r1"] by simp
  ultimately have "list_all DecimalDigit (ip @ fp)" by simp
  then obtain m where m: "digits_in_base 10 0 (ip @ fp) = Some m"
    using digits_run_ok [of "ip @ fp" 0] by auto
  have "unsigned_decimal u =
      (if ip = [] \<and> fp = [] then None
       else (case exponent_part r2 of
               Some e \<Rightarrow> Some (if 0 \<le> e - int (length fp)
                       then of_int m * 10 ^ nat (e - int (length fp))
                       else of_int m / 10 ^ nat (int (length fp) - e))
             | None \<Rightarrow> None))"
    unfolding unsigned_decimal_def is_digit_eq assms(1,2) Let_def
      assms(3) [symmetric] assms(4) [symmetric] assms(5) [symmetric] m
    by (simp split: option.splits)
  then show ?thesis by (simp split: option.splits)
qed

lemma finite_literal_parses:
  assumes "FiniteDecimalLiteral u"
  shows "unsigned_decimal u \<noteq> None"
proof -
  consider
    (point) ip fp ex where "u = ip @ ''.'' @ fp @ ex" "DecimalDigits ip"
      "list_all DecimalDigit fp" "ex = [] \<or> ExponentPart ex"
  | (leading_point) fp ex where "u = ''.'' @ fp @ ex" "DecimalDigits fp"
      "ex = [] \<or> ExponentPart ex"
  | (whole) ip ex where "u = ip @ ex" "DecimalDigits ip" "ex = [] \<or> ExponentPart ex"
    using assms unfolding FiniteDecimalLiteral_def by blast
  then show ?thesis
  proof cases
    case point
    have e: "exponent_part ex \<noteq> None" using point(4) exponent_part_iff [of ex] by blast
    have s1: "takeWhile DecimalDigit u = ip \<and> dropWhile DecimalDigit u = ''.'' @ fp @ ex"
      unfolding point(1) using point(2)
      by (intro span_run) (simp_all add: DecimalDigits_def)
    have s2: "takeWhile DecimalDigit (fp @ ex) = fp \<and> dropWhile DecimalDigit (fp @ ex) = ex"
      using point(3) exponent_starts [OF point(4)] by (intro span_run) auto
    show ?thesis
      using unsigned_decimal_split [of u ip "''.'' @ fp @ ex" True fp ex] s1 s2 e point(2)
      by (simp add: DecimalDigits_def)
  next
    case leading_point
    have e: "exponent_part ex \<noteq> None" using leading_point(3) exponent_part_iff [of ex] by blast
    have s1: "takeWhile DecimalDigit u = [] \<and> dropWhile DecimalDigit u = ''.'' @ fp @ ex"
      unfolding leading_point(1) by simp
    have s2: "takeWhile DecimalDigit (fp @ ex) = fp \<and> dropWhile DecimalDigit (fp @ ex) = ex"
      using leading_point(2) exponent_starts [OF leading_point(3)]
      by (intro span_run) (auto simp: DecimalDigits_def)
    show ?thesis
      using unsigned_decimal_split [of u "[]" "''.'' @ fp @ ex" True fp ex] s1 s2 e leading_point(2)
      by (simp add: DecimalDigits_def)
  next
    case whole
    have e: "exponent_part ex \<noteq> None" using whole(3) exponent_part_iff [of ex] by blast
    have s1: "takeWhile DecimalDigit u = ip \<and> dropWhile DecimalDigit u = ex"
      unfolding whole(1) using whole(2) exponent_starts [OF whole(3)]
      by (intro span_run) (auto simp: DecimalDigits_def)
    have np: "\<not> (ex \<noteq> [] \<and> hd ex = CHR ''.'')"
      using exponent_starts [OF whole(3)] by auto
    show ?thesis
      using unsigned_decimal_split [of u ip ex False "[]" ex] s1 e whole(2) np
      by (simp add: DecimalDigits_def)
  qed
qed

lemma parses_finite_literal:
  assumes "unsigned_decimal u \<noteq> None"
  shows "FiniteDecimalLiteral u"
proof -
  define ip where "ip = takeWhile DecimalDigit u"
  define r1 where "r1 = dropWhile DecimalDigit u"
  define has_point where "has_point = (r1 \<noteq> [] \<and> hd r1 = CHR ''.'')"
  define fp where "fp = (if has_point then takeWhile DecimalDigit (tl r1) else [])"
  define r2 where "r2 = (if has_point then dropWhile DecimalDigit (tl r1) else r1)"
  have ok: "\<not> (ip = [] \<and> fp = []) \<and> exponent_part r2 \<noteq> None"
    using assms unsigned_decimal_split [of u ip r1 has_point fp r2]
    by (simp add: ip_def r1_def has_point_def fp_def r2_def)
  then have ex: "r2 = [] \<or> ExponentPart r2" using exponent_part_iff [of r2] by blast
  have u: "u = ip @ r1" by (simp add: ip_def r1_def)
  have dip: "list_all DecimalDigit ip" unfolding ip_def by (rule takeWhile_all)
  show ?thesis
  proof (cases has_point)
    case True
    then obtain t where t: "r1 = CHR ''.'' # t"
      unfolding has_point_def by (cases r1) auto
    have fp: "fp = takeWhile DecimalDigit t" and r2: "r2 = dropWhile DecimalDigit t"
      using True t by (simp_all add: fp_def r2_def)
    have dfp: "list_all DecimalDigit fp" unfolding fp by (rule takeWhile_all)
    have tt: "t = fp @ r2" by (simp add: fp r2)
    have uu: "u = ip @ ''.'' @ fp @ r2" using u t tt by simp
    show ?thesis
    proof (cases "ip = []")
      case False
      then have "DecimalDigits ip" using dip by (simp add: DecimalDigits_def)
      then show ?thesis unfolding FiniteDecimalLiteral_def using uu dfp ex by blast
    next
      case True
      then have "fp \<noteq> []" using ok by simp
      then have "DecimalDigits fp" using dfp by (simp add: DecimalDigits_def)
      moreover have "u = ''.'' @ fp @ r2" using uu True by simp
      ultimately show ?thesis unfolding FiniteDecimalLiteral_def using ex by blast
    qed
  next
    case False
    then have "fp = []" "r2 = r1" by (simp_all add: fp_def r2_def)
    then have "ip \<noteq> []" "u = ip @ r2" using ok u by simp_all
    then have "DecimalDigits ip" using dip by (simp add: DecimalDigits_def)
    then show ?thesis unfolding FiniteDecimalLiteral_def using \<open>u = ip @ r2\<close> ex by blast
  qed
qed

lemma unsigned_decimal_iff: "unsigned_decimal u \<noteq> None \<longleftrightarrow> FiniteDecimalLiteral u"
  using finite_literal_parses parses_finite_literal by blast

lemma round64_not_NaN: "round64 q \<noteq> NaN"
  by (simp add: round64_def Let_def)

lemma unsigned_first:
  assumes "StrUnsignedDecimalLiteral u"
  shows "u \<noteq> [] \<and> hd u \<noteq> CHR ''+'' \<and> hd u \<noteq> CHR ''-''"
proof -
  consider "u = ''Infinity''"
    | ip r where "u = ip @ r" "DecimalDigits ip"
    | r where "u = ''.'' @ r"
    using assms unfolding StrUnsignedDecimalLiteral_def FiniteDecimalLiteral_def by blast
  then show ?thesis
  proof cases
    case 1
    then show ?thesis by simp
  next
    case 2
    then obtain d ds where "ip = d # ds" "DecimalDigit d"
      by (cases ip) (auto simp: DecimalDigits_def)
    then show ?thesis using 2(1) by auto
  next
    case 3
    then show ?thesis by simp
  qed
qed

lemma signed_decimal_ok:
  "signed_decimal s \<noteq> NaN \<longleftrightarrow> StrUnsignedDecimalLiteral (strip_sign s)"
proof (cases "strip_sign s = ''Infinity''")
  case True
  then show ?thesis
    by (simp add: signed_decimal_def Let_def StrUnsignedDecimalLiteral_def)
next
  case False
  have "signed_decimal s =
      (case unsigned_decimal (strip_sign s) of
         None \<Rightarrow> NaN
       | Some q \<Rightarrow> round64 (if s \<noteq> [] \<and> hd s = CHR ''-'' then - q else q))"
    using False unfolding signed_decimal_def Let_def by simp
  then have "signed_decimal s \<noteq> NaN \<longleftrightarrow> unsigned_decimal (strip_sign s) \<noteq> None"
    by (simp add: round64_not_NaN split: option.splits)
  then show ?thesis
    using False unsigned_decimal_iff [of "strip_sign s"]
    by (simp only: StrUnsignedDecimalLiteral_def) blast
qed

lemma decimal_literal_strip: "StrDecimalLiteral s \<longleftrightarrow> StrUnsignedDecimalLiteral (strip_sign s)"
proof
  assume "StrDecimalLiteral s"
  then obtain sg u where d: "s = sg @ u" "sg = [] \<or> sg = ''+'' \<or> sg = ''-''"
      "StrUnsignedDecimalLiteral u"
    unfolding StrDecimalLiteral_def by blast
  have "strip_sign s = u"
    using d(1,2) unsigned_first [OF d(3)] by (auto simp: strip_sign_def)
  then show "StrUnsignedDecimalLiteral (strip_sign s)" using d(3) by simp
next
  assume a: "StrUnsignedDecimalLiteral (strip_sign s)"
  show "StrDecimalLiteral s"
  proof (cases "s \<noteq> [] \<and> (hd s = CHR ''+'' \<or> hd s = CHR ''-'')")
    case True
    then have "s = [hd s] @ strip_sign s" "[hd s] = ''+'' \<or> [hd s] = ''-''"
      by (auto simp: strip_sign_def)
    then show ?thesis unfolding StrDecimalLiteral_def using a by blast
  next
    case False
    then have "s = [] @ strip_sign s" by (auto simp: strip_sign_def)
    then show ?thesis unfolding StrDecimalLiteral_def using a by blast
  qed
qed

lemma signed_decimal_iff: "signed_decimal s \<noteq> NaN \<longleftrightarrow> StrDecimalLiteral s"
  by (simp only: signed_decimal_ok decimal_literal_strip)

lemma radix_prefix_Some:
  "radix_prefix t = Some b \<longleftrightarrow>
     (\<exists>c r. t = CHR ''0'' # c # r
        \<and> (((c = CHR ''x'' \<or> c = CHR ''X'') \<and> b = 16)
            \<or> ((c = CHR ''o'' \<or> c = CHR ''O'') \<and> b = 8)
            \<or> ((c = CHR ''b'' \<or> c = CHR ''B'') \<and> b = 2)))"
proof (cases t)
  case Nil
  then show ?thesis by (simp add: radix_prefix_def)
next
  case (Cons c0 t1)
  show ?thesis
  proof (cases t1)
    case Nil
    then show ?thesis using Cons by (simp add: radix_prefix_def)
  next
    case (Cons c1 r)
    then show ?thesis using \<open>t = c0 # t1\<close>
      by (auto simp: radix_prefix_def)
  qed
qed

lemma radix_not_decimal:
  assumes "radix_prefix t = Some b"
  shows "\<not> StrDecimalLiteral t"
proof -
  obtain c r where t: "t = CHR ''0'' # c # r"
    and c: "c = CHR ''x'' \<or> c = CHR ''X'' \<or> c = CHR ''o'' \<or> c = CHR ''O''
        \<or> c = CHR ''b'' \<or> c = CHR ''B''"
    using assms unfolding radix_prefix_Some by blast
  have nd: "\<not> DecimalDigit c" "c \<noteq> CHR ''.''" "c \<noteq> CHR ''e''" "c \<noteq> CHR ''E''"
    using c by (auto simp: DecimalDigit_def)
  have ss: "strip_sign t = t" by (simp add: strip_sign_def t)
  have d0: "DecimalDigit CHR ''0''" by (simp add: DecimalDigit_def)
  have tw: "takeWhile DecimalDigit t = ''0''" "dropWhile DecimalDigit t = c # r"
    using nd(1) d0 by (simp_all add: t)
  have "exponent_part (c # r) = None"
    using nd by (simp add: exponent_part_def)
  then have "unsigned_decimal t = None"
    using unsigned_decimal_split [of t "''0''" "c # r" False "[]" "c # r"] tw nd(2) by simp
  then have "\<not> FiniteDecimalLiteral t" using unsigned_decimal_iff [of t] by simp
  moreover have "t \<noteq> ''Infinity''" using t by simp
  ultimately show ?thesis
    by (simp add: decimal_literal_strip ss StrUnsignedDecimalLiteral_def)
qed

lemma non_decimal_Cons:
  "NonDecimalIntegerLiteral (CHR ''0'' # c # r) \<longleftrightarrow>
     r \<noteq> [] \<and> (((c = CHR ''x'' \<or> c = CHR ''X'') \<and> list_all HexDigit r)
            \<or> ((c = CHR ''o'' \<or> c = CHR ''O'') \<and> list_all OctalDigit r)
            \<or> ((c = CHR ''b'' \<or> c = CHR ''B'') \<and> list_all BinaryDigit r))"
  unfolding NonDecimalIntegerLiteral_def by simp

lemma radix_literal:
  assumes "radix_prefix t = Some b"
  shows "number_in_base b (drop 2 t) \<noteq> None \<longleftrightarrow> NonDecimalIntegerLiteral t"
proof -
  obtain c r where t: "t = CHR ''0'' # c # r"
    and c: "((c = CHR ''x'' \<or> c = CHR ''X'') \<and> b = 16)
            \<or> ((c = CHR ''o'' \<or> c = CHR ''O'') \<and> b = 8)
            \<or> ((c = CHR ''b'' \<or> c = CHR ''B'') \<and> b = 2)"
    using assms unfolding radix_prefix_Some by blast
  have p: "number_in_base b (drop 2 t) \<noteq> None \<longleftrightarrow> r \<noteq> [] \<and> list_all (digit_ok b) r"
    using number_in_base_iff [of b r] by (simp add: t)
  from c consider (hex) "c = CHR ''x'' \<or> c = CHR ''X''" "b = 16"
    | (oct) "c = CHR ''o'' \<or> c = CHR ''O''" "b = 8"
    | (bin) "c = CHR ''b'' \<or> c = CHR ''B''" "b = 2"
    by blast
  then show ?thesis
  proof cases
    case hex
    have "NonDecimalIntegerLiteral t \<longleftrightarrow> r \<noteq> [] \<and> list_all HexDigit r"
      unfolding t non_decimal_Cons using hex(1) by auto
    then show ?thesis using p unfolding hex(2) digit_ok_16 [abs_def] by blast
  next
    case oct
    have "NonDecimalIntegerLiteral t \<longleftrightarrow> r \<noteq> [] \<and> list_all OctalDigit r"
      unfolding t non_decimal_Cons using oct(1) by auto
    then show ?thesis using p unfolding oct(2) digit_ok_8 [abs_def] by blast
  next
    case bin
    have "NonDecimalIntegerLiteral t \<longleftrightarrow> r \<noteq> [] \<and> list_all BinaryDigit r"
      unfolding t non_decimal_Cons using bin(1) by auto
    then show ?thesis using p unfolding bin(2) digit_ok_2 [abs_def] by blast
  qed
qed

lemma no_radix_not_literal:
  assumes "radix_prefix t = None"
  shows "\<not> NonDecimalIntegerLiteral t"
proof
  assume "NonDecimalIntegerLiteral t"
  then obtain c ds where "t = CHR ''0'' # c # ds"
    "c = CHR ''x'' \<or> c = CHR ''X'' \<or> c = CHR ''o'' \<or> c = CHR ''O''
        \<or> c = CHR ''b'' \<or> c = CHR ''B''"
    unfolding NonDecimalIntegerLiteral_def by blast
  then have "\<exists>b. radix_prefix t = Some b"
    unfolding radix_prefix_Some by blast
  then show False using assms by simp
qed

lemma StringToNumber_NaN_iff:
  "StringToNumber s = NaN \<longleftrightarrow> trim s \<noteq> [] \<and> \<not> StrNumericLiteral (trim s)"
proof (cases "trim s = []")
  case True
  then show ?thesis by (simp add: StringToNumber_def)
next
  case False
  show ?thesis
  proof (cases "radix_prefix (trim s)")
    case None
    then have "StringToNumber s = signed_decimal (trim s)"
      using False by (simp add: StringToNumber_def)
    then show ?thesis
      using False signed_decimal_iff [of "trim s"] no_radix_not_literal [OF None]
      unfolding StrNumericLiteral_def by metis
  next
    case (Some b)
    have "StringToNumber s =
        (case number_in_base b (drop 2 (trim s)) of None \<Rightarrow> NaN | Some n \<Rightarrow> round64 (of_int n))"
      using False Some by (simp add: StringToNumber_def)
    then have "StringToNumber s \<noteq> NaN \<longleftrightarrow> number_in_base b (drop 2 (trim s)) \<noteq> None"
      by (simp add: round64_not_NaN split: option.splits)
    then show ?thesis
      using False radix_literal [OF Some] radix_not_decimal [OF Some]
      unfolding StrNumericLiteral_def by metis
  qed
qed

lemma bit_length_pos: "0 < n \<Longrightarrow> bit_length n = 1 + bit_length (n div 2)"
  by (subst bit_length.simps) simp

lemma bit_length_nonpos: "n \<le> 0 \<Longrightarrow> bit_length n = 0"
  by (subst bit_length.simps) simp

lemma bit_length_nonneg: "0 \<le> bit_length n"
proof (induction n rule: bit_length.induct)
  case (1 n)
  show ?case
  proof (cases "n \<le> 0")
    case True
    then show ?thesis by (simp add: bit_length_nonpos)
  next
    case False
    then show ?thesis using 1 by (simp add: bit_length_pos)
  qed
qed

lemma bit_length_bounds:
  "0 < n \<Longrightarrow> 1 \<le> bit_length n \<and> 2 ^ nat (bit_length n - 1) \<le> n \<and> n < 2 ^ nat (bit_length n)"
proof (induction n rule: bit_length.induct)
  case (1 n)
  show ?case
  proof (cases "n div 2 = 0")
    case True
    then have n1: "n = 1" using "1.prems" by presburger
    have "bit_length 1 = 1"
      by (simp add: bit_length_pos bit_length_nonpos)
    then show ?thesis using n1 by simp
  next
    case False
    then have p: "0 < n div 2" using "1.prems" by presburger
    then have ih: "1 \<le> bit_length (n div 2)"
        "2 ^ nat (bit_length (n div 2) - 1) \<le> n div 2"
        "n div 2 < 2 ^ nat (bit_length (n div 2))"
      using "1.IH" "1.prems" by auto
    have bl: "bit_length n = 1 + bit_length (n div 2)"
      using "1.prems" by (rule bit_length_pos)
    have e1: "nat (bit_length n - 1) = Suc (nat (bit_length (n div 2) - 1))"
      using ih(1) bl by simp
    have e2: "nat (bit_length n) = Suc (nat (bit_length (n div 2)))"
      using ih(1) bl by simp
    have "2 * 2 ^ nat (bit_length (n div 2) - 1) \<le> 2 * (n div 2)" using ih(2) by simp
    also have "\<dots> \<le> n" by presburger
    finally have lo: "2 ^ nat (bit_length n - 1) \<le> n" unfolding e1 by simp
    have "n div 2 + 1 \<le> 2 ^ nat (bit_length (n div 2))" using ih(3) by simp
    then have "2 * (n div 2) + 2 \<le> 2 * 2 ^ nat (bit_length (n div 2))" by simp
    moreover have "n < 2 * (n div 2) + 2" by presburger
    ultimately have hi: "n < 2 ^ nat (bit_length n)" unfolding e2 by simp
    show ?thesis using lo hi ih(1) bl by simp
  qed
qed

lemma round_half_even_int: "round_half_even (of_int n) = n"
  by (simp add: round_half_even_def Let_def)

lemma bit_length_1: "bit_length 1 = 1"
  by (simp add: bit_length_pos bit_length_nonpos)

lemma floor_log2_int:
  assumes "0 < m"
  shows "floor_log2 (of_int m) = bit_length m - 1"
proof -
  have b: "1 \<le> bit_length m" "2 ^ nat (bit_length m - 1) \<le> m"
    using bit_length_bounds [OF assms] by simp_all
  have "pow2 (bit_length m - 1) = of_int (2 ^ nat (bit_length m - 1))"
    using b(1) by (simp add: pow2_def)
  also have "\<dots> \<le> of_int m" using b(2) by (simp only: of_int_le_iff)
  finally have "pow2 (bit_length m - 1) \<le> of_int m" .
  then show ?thesis
    by (simp add: floor_log2_def Let_def bit_length_1)
qed

lemma round64_int_exact:
  assumes "0 \<le> m" and "m \<le> 9007199254740992"
  shows "round64 (of_int m) = Fin (of_int m)"
proof (cases "m = 0")
  case True
  then show ?thesis by (simp add: round64_def)
next
  case False
  then have pos: "0 < m" using assms(1) by simp
  define e where "e = bit_length m - 1"
  have b: "0 \<le> e" "2 ^ nat e \<le> m"
    using bit_length_bounds [OF pos] by (simp_all add: e_def)
  have "(2::int) ^ nat e \<le> 2 ^ 53" using b(2) assms(2) by simp
  then have "nat e \<le> 53" by (simp only: power_increasing_iff)
  then have e53: "e \<le> 53" by simp
  have fl: "floor_log2 \<bar>of_int m\<bar> = e"
    using floor_log2_int [OF pos] pos by (simp add: e_def)
  have mx: "max e (- 1022) = e" using b(1) by simp
  have ex: "\<exists>k :: int. (of_int m :: rat) / pow2 (e - 52) = of_int k"
  proof (cases "e \<le> 52")
    case True
    then have "pow2 (e - 52) = 1 / 2 ^ nat (52 - e)"
      by (cases "e = 52") (simp_all add: pow2_def)
    then have "(of_int m :: rat) / pow2 (e - 52) = of_int (m * 2 ^ nat (52 - e))"
      by simp
    then show ?thesis by blast
  next
    case False
    then have e: "e = 53" using e53 by simp
    then have "2 ^ 53 \<le> m" using b(2) by simp
    then have m: "m = 9007199254740992" using assms(2) by simp
    have "pow2 (e - 52) = 2" using e by (simp add: pow2_def)
    then have "(of_int m :: rat) / pow2 (e - 52) = of_int 4503599627370496"
      using m by simp
    then show ?thesis by blast
  qed
  then obtain k :: int where k: "(of_int m :: rat) / pow2 (e - 52) = of_int k" by blast
  have u0: "pow2 (e - 52) \<noteq> 0" by (simp add: pow2_def)
  have r: "of_int (round_half_even ((of_int m :: rat) / pow2 (e - 52))) * pow2 (e - 52) = of_int m"
    unfolding k round_half_even_int using k u0 by (metis nonzero_divide_eq_eq)
  have small: "\<not> pow2 1024 \<le> (of_int m :: rat)"
  proof -
    have "(of_int m :: rat) \<le> of_int 9007199254740992" using assms(2) by (simp only: of_int_le_iff)
    moreover have "(of_int 9007199254740992 :: rat) < pow2 1024" by (simp add: pow2_def)
    ultimately show ?thesis by simp
  qed
  have am: "\<bar>of_int m :: rat\<bar> = of_int m" using pos by simp
  show ?thesis
    unfolding round64_def Let_def am
    using False pos small r fl [unfolded am] mx
    by simp
qed

lemma hex_val_digit: "DecimalDigit c \<Longrightarrow> hex_val c = Some (of_char c - 48) \<and> of_char c - 48 < (10::int)"
  using is_digit_iff [of c] by (simp add: is_digit_def hex_val_def Let_def)

lemma digits_in_base_10_value:
  "list_all DecimalDigit ds \<Longrightarrow>
     digits_in_base 10 acc ds = Some (foldl (\<lambda>a c. 10 * a + (of_char c - 48)) acc ds)"
proof (induction ds arbitrary: acc)
  case Nil
  then show ?case by simp
next
  case (Cons d ds)
  then have "hex_val d = Some (of_char d - 48)" "of_char d - 48 < (10::int)"
    using hex_val_digit [of d] by simp_all
  then show ?case using Cons by (simp add: mult.commute)
qed

lemma foldl_digits_nonneg:
  "list_all DecimalDigit ds \<Longrightarrow> 0 \<le> acc \<Longrightarrow>
     0 \<le> foldl (\<lambda>a c. 10 * a + (of_char c - 48)) (acc :: int) ds"
proof (induction ds arbitrary: acc)
  case Nil
  then show ?case by simp
next
  case (Cons d ds)
  have "48 \<le> (of_char d :: int)"
    using Cons.prems(1) is_digit_iff [of d] by (simp add: is_digit_def)
  then have "0 \<le> 10 * acc + (of_char d - 48)" using Cons.prems(2) by simp
  then show ?case using Cons by simp
qed

lemma decimal_value_nonneg: "list_all DecimalDigit ds \<Longrightarrow> 0 \<le> decimal_value ds"
  unfolding decimal_value_def by (rule foldl_digits_nonneg) simp_all

lemma digit_not_ws: "DecimalDigit c \<Longrightarrow> \<not> is_ws c"
  using is_digit_iff [of c] by (auto simp: is_digit_def is_ws_def)

lemma dropWhile_hd: "xs \<noteq> [] \<Longrightarrow> \<not> P (hd xs) \<Longrightarrow> dropWhile P xs = xs"
  by (cases xs) simp_all

lemma trim_digits:
  assumes "DecimalDigits ds"
  shows "trim ds = ds"
proof -
  obtain d r where ds: "ds = d # r" using assms by (cases ds) (auto simp: DecimalDigits_def)
  have all: "\<And>c. c \<in> set ds \<Longrightarrow> \<not> is_ws c"
    using assms digit_not_ws by (auto simp: DecimalDigits_def list_all_iff)
  have "\<not> is_ws d" using all ds by simp
  then have a: "dropWhile is_ws ds = ds" by (simp add: ds)
  have ne: "rev ds \<noteq> []" using ds by simp
  have "last ds \<in> set ds" using ds by simp
  then have "\<not> is_ws (last ds)" by (rule all)
  then have "\<not> is_ws (hd (rev ds))" using ds hd_rev [of ds] by auto
  with ne have b: "dropWhile is_ws (rev ds) = rev ds" by (rule dropWhile_hd)
  show ?thesis by (simp add: trim_def a b)
qed

lemma radix_prefix_digits:
  assumes "DecimalDigits ds"
  shows "radix_prefix ds = None"
proof (cases "radix_prefix ds")
  case None
  then show ?thesis .
next
  case (Some b)
  then obtain c r where "ds = CHR ''0'' # c # r"
    "c = CHR ''x'' \<or> c = CHR ''X'' \<or> c = CHR ''o'' \<or> c = CHR ''O''
        \<or> c = CHR ''b'' \<or> c = CHR ''B''"
    unfolding radix_prefix_Some by blast
  then have "\<not> DecimalDigit c" "DecimalDigit c"
    using assms by (auto simp: DecimalDigit_def DecimalDigits_def)
  then show ?thesis by simp
qed

lemma unsigned_decimal_digits:
  assumes "DecimalDigits ds"
  shows "unsigned_decimal ds = Some (of_int (decimal_value ds))"
proof -
  have all: "list_all DecimalDigit ds" and ne: "ds \<noteq> []"
    using assms by (simp_all add: DecimalDigits_def)
  have tw: "takeWhile DecimalDigit ds = ds" "dropWhile DecimalDigit ds = []"
    using all by (simp_all add: list_all_iff)
  have v: "digits_in_base 10 0 ds = Some (decimal_value ds)"
    unfolding decimal_value_def using all by (rule digits_in_base_10_value)
  show ?thesis
    unfolding unsigned_decimal_def is_digit_eq Let_def tw
    using ne v by (simp add: exponent_part_def)
qed

lemma StringToNumber_digits:
  assumes "DecimalDigits ds" and "decimal_value ds \<le> 9007199254740992"
  shows "StringToNumber ds = Fin (of_int (decimal_value ds))"
proof -
  obtain d r where ds: "ds = d # r" "DecimalDigit d"
    using assms(1) by (cases ds) (auto simp: DecimalDigits_def)
  have nn: "0 \<le> decimal_value ds"
    using assms(1) by (simp add: DecimalDigits_def decimal_value_nonneg)
  have ss: "strip_sign ds = ds"
    using ds by (auto simp: strip_sign_def)
  have ni: "ds \<noteq> ''Infinity''" using ds by auto
  have nneg: "\<not> (ds \<noteq> [] \<and> hd ds = CHR ''-'')" using ds by auto
  have "signed_decimal ds = round64 (of_int (decimal_value ds))"
    unfolding signed_decimal_def Let_def ss
    using ni nneg unsigned_decimal_digits [OF assms(1)] by auto
  then show ?thesis
    using ds(1) trim_digits [OF assms(1)] radix_prefix_digits [OF assms(1)]
      round64_int_exact [OF nn assms(2)]
    by (simp add: StringToNumber_def)
qed

lemma Number_segment:
  "(Number None = NaN)
   \<and> (Number (Some s) = NaN \<longleftrightarrow> trim s \<noteq> [] \<and> \<not> StrNumericLiteral (trim s))
   \<and> (trim s = [] \<longrightarrow> Number (Some s) = Fin 0)
   \<and> (DecimalDigits s \<and> decimal_value s \<le> 9007199254740992 \<longrightarrow>
         Number (Some s) = Fin (of_int (decimal_value s)))"
  using StringToNumber_NaN_iff [of s] StringToNumber_digits [of s]
  by (simp add: StringToNumber_def)

section \<open>Properties of the path identifiers\<close>

text \<open>
  C5, as the code has it. For every request, \<^verbatim>\<open>Request.getId()\<close> is \<^verbatim>\<open>Number\<close> of the
  segment at index 2 of the raw URL split on \<^verbatim>\<open>/\<close>, and \<^verbatim>\<open>Request.getSubTodoId()\<close> of
  the segment at index 4. Each is \<^verbatim>\<open>NaN\<close> when the segment is absent, and when it is
  present exactly if, white space at its ends removed, it is not empty and not a numeric
  literal; a segment that is empty or all white space gives 0; a segment of decimal
  digits gives the number they denote (exactly, up to \<open>2 ^ 53\<close>).
\<close>

theorem getId_reads_segment:
  "getId rq = Number (url_segment rq 2)
   \<and> getSubTodoId rq = Number (url_segment rq 4)
   \<and> (url_segment rq 2 = None \<longrightarrow> getId rq = NaN)
   \<and> (url_segment rq 4 = None \<longrightarrow> getSubTodoId rq = NaN)
   \<and> (\<forall>s. url_segment rq 2 = Some s \<longrightarrow>
         (getId rq = NaN \<longleftrightarrow> trim s \<noteq> [] \<and> \<not> StrNumericLiteral (trim s))
         \<and> (trim s = [] \<longrightarrow> getId rq = Fin 0)
         \<and> (DecimalDigits s \<and> decimal_value s \<le> 9007199254740992 \<longrightarrow>
               getId rq = Fin (of_int (decimal_value s))))
   \<and> (\<forall>s. url_segment rq 4 = Some s \<longrightarrow>
         (getSubTodoId rq = NaN \<longleftrightarrow> trim s \<noteq> [] \<and> \<not> StrNumericLiteral (trim s))
         \<and> (trim s = [] \<longrightarrow> getSubTodoId rq = Fin 0)
         \<and> (DecimalDigits s \<and> decimal_value s \<le> 9007199254740992 \<longrightarrow>
               getSubTodoId rq = Fin (of_int (decimal_value s))))"
  using Number_segment by (simp add: getId_def getSubTodoId_def)

theorem getId_reads_segment_witness:
  "url_segment \<lparr> req = \<lparr> req_method = ''PUT'', req_url = Some ''/todos/12/subtodos/abc/complete'',
         hdr_accept = None, hdr_content_type = None, hdr_host = None \<rparr>, body = JObj [] \<rparr> 2
     = Some ''12''
   \<and> DecimalDigits ''12'' \<and> decimal_value ''12'' = 12
   \<and> getId \<lparr> req = \<lparr> req_method = ''PUT'', req_url = Some ''/todos/12/subtodos/abc/complete'',
         hdr_accept = None, hdr_content_type = None, hdr_host = None \<rparr>, body = JObj [] \<rparr> = Fin 12
   \<and> url_segment \<lparr> req = \<lparr> req_method = ''PUT'', req_url = Some ''/todos/12/subtodos/abc/complete'',
         hdr_accept = None, hdr_content_type = None, hdr_host = None \<rparr>, body = JObj [] \<rparr> 4
     = Some ''abc''
   \<and> getSubTodoId \<lparr> req = \<lparr> req_method = ''PUT'',
         req_url = Some ''/todos/12/subtodos/abc/complete'',
         hdr_accept = None, hdr_content_type = None, hdr_host = None \<rparr>, body = JObj [] \<rparr> = NaN
   \<and> trim ''abc'' = ''abc'' \<and> \<not> StrNumericLiteral ''abc''
   \<and> url_segment \<lparr> req = \<lparr> req_method = ''GET'', req_url = Some ''/todos'',
         hdr_accept = None, hdr_content_type = None, hdr_host = None \<rparr>, body = JObj [] \<rparr> 2 = None
   \<and> getId \<lparr> req = \<lparr> req_method = ''GET'', req_url = Some ''/todos'',
         hdr_accept = None, hdr_content_type = None, hdr_host = None \<rparr>, body = JObj [] \<rparr> = NaN
   \<and> url_segment \<lparr> req = \<lparr> req_method = ''GET'', req_url = Some ''/todos'',
         hdr_accept = None, hdr_content_type = None, hdr_host = None \<rparr>, body = JObj [] \<rparr> 4 = None
   \<and> getSubTodoId \<lparr> req = \<lparr> req_method = ''GET'', req_url = Some ''/todos'',
         hdr_accept = None, hdr_content_type = None, hdr_host = None \<rparr>, body = JObj [] \<rparr> = NaN
   \<and> url_segment \<lparr> req = \<lparr> req_method = ''GET'', req_url = Some ''/todos//subtodos/'',
         hdr_accept = None, hdr_content_type = None, hdr_host = None \<rparr>, body = JObj [] \<rparr> 2 = Some []
   \<and> getId \<lparr> req = \<lparr> req_method = ''GET'', req_url = Some ''/todos//subtodos/'',
         hdr_accept = None, hdr_content_type = None, hdr_host = None \<rparr>, body = JObj [] \<rparr> = Fin 0
   \<and> url_segment \<lparr> req = \<lparr> req_method = ''GET'', req_url = Some ''/todos//subtodos/'',
         hdr_accept = None, hdr_content_type = None, hdr_host = None \<rparr>, body = JObj [] \<rparr> 4 = Some []
   \<and> getSubTodoId \<lparr> req = \<lparr> req_method = ''GET'', req_url = Some ''/todos//subtodos/'',
         hdr_accept = None, hdr_content_type = None, hdr_host = None \<rparr>, body = JObj [] \<rparr> = Fin 0"
proof -
  define r where "r = \<lparr> req = \<lparr> req_method = ''PUT'',
         req_url = Some ''/todos/12/subtodos/abc/complete'',
         hdr_accept = None, hdr_content_type = None, hdr_host = None \<rparr>, body = JObj [] \<rparr>"
  define p where "p = \<lparr> req = \<lparr> req_method = ''GET'', req_url = Some ''/todos'',
         hdr_accept = None, hdr_content_type = None, hdr_host = None \<rparr>, body = JObj [] \<rparr>"
  define e where "e = \<lparr> req = \<lparr> req_method = ''GET'', req_url = Some ''/todos//subtodos/'',
         hdr_accept = None, hdr_content_type = None, hdr_host = None \<rparr>, body = JObj [] \<rparr>"
  have s2: "url_segment r 2 = Some ''12''" by (simp add: r_def url_segment_def at_index_def)
  have s4: "url_segment r 4 = Some ''abc''" by (simp add: r_def url_segment_def at_index_def)
  have p2: "url_segment p 2 = None" by (simp add: p_def url_segment_def at_index_def)
  have p4: "url_segment p 4 = None" by (simp add: p_def url_segment_def at_index_def)
  have e2: "url_segment e 2 = Some []" by (simp add: e_def url_segment_def at_index_def)
  have e4: "url_segment e 4 = Some []" by (simp add: e_def url_segment_def at_index_def)
  have dd: "DecimalDigits ''12''" by (simp add: DecimalDigits_def DecimalDigit_def)
  have dv: "decimal_value ''12'' = 12" by (simp add: decimal_value_def)
  have le: "decimal_value ''12'' \<le> 9007199254740992" by (simp add: dv)
  have tr: "trim ''abc'' = ''abc''" by (simp add: trim_def is_ws_def)
  have te: "trim [] = []" by (simp add: trim_def)
  have n4: "getSubTodoId r = NaN" unfolding r_def by code_simp
  have "getId r = Fin (of_int (decimal_value ''12''))"
    using getId_reads_segment [of r] s2 dd le by blast
  then have a: "getId r = Fin 12" by (simp add: dv)
  have "trim ''abc'' \<noteq> [] \<and> \<not> StrNumericLiteral (trim ''abc'')"
    using getId_reads_segment [of r] s4 n4 by blast
  then have b: "\<not> StrNumericLiteral ''abc''" by (simp add: tr)
  have c2: "getId p = NaN"
    using getId_reads_segment [of p] p2 by blast
  have c4: "getSubTodoId p = NaN"
    using getId_reads_segment [of p] p4 by blast
  have z2: "getId e = Fin 0"
    using getId_reads_segment [of e] e2 te by blast
  have z4: "getSubTodoId e = Fin 0"
    using getId_reads_segment [of e] e4 te by blast
  show ?thesis
    using s2 dd dv a s4 n4 tr b p2 c2 p4 c4 e2 z2 e4 z4 unfolding r_def p_def e_def
    by (intro conjI)
qed

lemma empty_not_numeric: "\<not> StrNumericLiteral []"
  by (simp add: StrNumericLiteral_def StrDecimalLiteral_def StrUnsignedDecimalLiteral_def
      FiniteDecimalLiteral_def NonDecimalIntegerLiteral_def DecimalDigits_def)

text \<open>
  C5 as stated has \<^verbatim>\<open>NaN\<close> for every segment that is not numeric. The URL
  \<^verbatim>\<open>/todos/\<close> has the empty string at index 2, which is no numeric literal, and
  \<^verbatim>\<open>getId()\<close> is 0 there, not \<^verbatim>\<open>NaN\<close>.
\<close>

theorem getId_empty_segment_counterexample:
  "url_segment \<lparr> req = \<lparr> req_method = ''GET'', req_url = Some ''/todos/'',
         hdr_accept = None, hdr_content_type = None, hdr_host = None \<rparr>, body = JObj [] \<rparr> 2
     = Some []
   \<and> \<not> StrNumericLiteral []
   \<and> getId \<lparr> req = \<lparr> req_method = ''GET'', req_url = Some ''/todos/'',
         hdr_accept = None, hdr_content_type = None, hdr_host = None \<rparr>, body = JObj [] \<rparr> = Fin 0
   \<and> getId \<lparr> req = \<lparr> req_method = ''GET'', req_url = Some ''/todos/'',
         hdr_accept = None, hdr_content_type = None, hdr_host = None \<rparr>, body = JObj [] \<rparr> \<noteq> NaN"
proof -
  let ?rq = "\<lparr> req = \<lparr> req_method = ''GET'', req_url = Some ''/todos/'',
         hdr_accept = None, hdr_content_type = None, hdr_host = None \<rparr>, body = JObj [] \<rparr>"
  have s: "url_segment ?rq 2 = Some []" by (simp add: url_segment_def at_index_def)
  have g: "getId ?rq = Fin 0" by code_simp
  show ?thesis using s g empty_not_numeric by simp
qed

section \<open>Properties of the Todo model\<close>

lemma as_int4_num_of_int:
  "- 2147483648 \<le> i \<Longrightarrow> i \<le> 2147483647 \<Longrightarrow> as_int4 (num_of_int i) = Some i"
  by (simp add: as_int4_def num_of_int_def)

lemma tr_id_apply_update: "tr_id (apply_update u now r) = tr_id r"
  by (simp add: apply_update_def)

lemma filter_updated_rows:
  "filter (\<lambda>r. tr_id r = i) (map (\<lambda>r. if tr_id r = i then apply_update u now r else r) xs)
     = map (apply_update u now) (filter (\<lambda>r. tr_id r = i) xs)"
  by (induction xs) (simp_all add: tr_id_apply_update)

lemma update_todo_by_id_found:
  assumes "as_int4 m = Some i"
  shows "update_todo_by_id (Some m) u now s =
    Inr (map (apply_update u now) (filter (\<lambda>r. tr_id r = i) (todos s)),
         s\<lparr>todos := map (\<lambda>r. if tr_id r = i then apply_update u now r else r) (todos s)\<rparr>)"
  using assms by (simp add: update_todo_by_id_def filter_updated_rows)

lemma sql_no_fault:
  assumes "faults w = [] \<or> \<not> hd (faults w)" and "sem (store w) = Inr (a, s')"
  shows "sql st sem w =
    (Inr a, w\<lparr>issued := issued w @ [st], faults := tl (faults w), store := s'\<rparr>)"
  using assms by (auto simp: sql_def Let_def)

lemma Todo_update_found:
  assumes "tp_id (todo_props this) = Some m" and "as_int4 m = Some i"
    and "faults w = [] \<or> \<not> hd (faults w)"
    and "filter (\<lambda>r. tr_id r = i) (todos (store w)) = r0 # rs"
  shows "Todo_update u now this w =
    (Inr (this\<lparr>todo_props :=
        (todo_props_of_row (apply_update u now r0))\<lparr>tp_subTodos := tp_subTodos (todo_props this)\<rparr>\<rparr>),
     w\<lparr>issued := issued w @ [UpdateTodoById (Some m)], faults := tl (faults w),
       store := (store w)\<lparr>todos :=
         map (\<lambda>r. if tr_id r = i then apply_update u now r else r) (todos (store w))\<rparr>\<rparr>)"
proof -
  have sem: "update_todo_by_id (Some m) u now (store w) =
    Inr (apply_update u now r0 # map (apply_update u now) rs,
         (store w)\<lparr>todos := map (\<lambda>r. if tr_id r = i then apply_update u now r else r)
            (todos (store w))\<rparr>)"
    by (simp add: update_todo_by_id_found [OF assms(2)] assms(4))
  have run: "sql (UpdateTodoById (Some m)) (update_todo_by_id (Some m) u now) w =
    (Inr (apply_update u now r0 # map (apply_update u now) rs),
     w\<lparr>issued := issued w @ [UpdateTodoById (Some m)], faults := tl (faults w),
       store := (store w)\<lparr>todos :=
         map (\<lambda>r. if tr_id r = i then apply_update u now r else r) (todos (store w))\<rparr>\<rparr>)"
    using assms(3) sem
    by (rule sql_no_fault [where sem = "update_todo_by_id (Some m) u now"])
  show ?thesis
    unfolding Todo_update_def assms(1) run
    by simp
qed

lemma ids_updated_rows:
  "map tr_id (map (\<lambda>r. if tr_id r = i then apply_update u now r else r) xs) = map tr_id xs"
  by (induction xs) (simp_all add: tr_id_apply_update)

lemma updated_rows_status:
  assumes "r \<in> set (map (\<lambda>r. if tr_id r = i then apply_update u now r else r) xs)"
    and "tr_id r = i" and "up_status u = Some st"
  shows "tr_status r = st"
proof -
  obtain x where x: "x \<in> set xs" "r = (if tr_id x = i then apply_update u now x else x)"
    using assms(1) by auto
  show ?thesis
  proof (cases "tr_id x = i")
    case True
    then have "r = apply_update u now x" using x by simp
    then show ?thesis using assms(3) by (simp add: apply_update_def)
  next
    case False
    then have "r = x" using x by simp
    then show ?thesis using False assms(2) by simp
  qed
qed

text \<open>
  C9. Marking a todo whose status is already \<^verbatim>\<open>complete\<close> as complete again
  (\<^verbatim>\<open>Todo.markComplete\<close>) does not error, and afterwards the todo's status is still
  \<^verbatim>\<open>complete\<close>, in the instance and in the store. The todo is one the store holds, and
  the database does not fail on the statement.
\<close>

theorem markComplete_idempotent:
  assumes "tp_id (todo_props this) = Some (num_of_int i)"
    and "- 2147483648 \<le> i \<and> i \<le> 2147483647"
    and "tp_status (todo_props this) = complete"
    and "\<exists>r \<in> set (todos (store w)). tr_id r = i \<and> tr_status r = complete"
    and "faults w = [] \<or> \<not> hd (faults w)"
  shows "\<exists>this' w'.
           Todo_markComplete now this w = (Inr this', w')
           \<and> tp_status (todo_props this') = complete
           \<and> tp_id (todo_props this') = Some (num_of_int i)
           \<and> (\<exists>r \<in> set (todos (store w')). tr_id r = i)
           \<and> (\<forall>r \<in> set (todos (store w')). tr_id r = i \<longrightarrow> tr_status r = complete)
           \<and> map tr_id (todos (store w')) = map tr_id (todos (store w))
           \<and> sent w' = sent w"
proof -
  define u where "u = \<lparr> up_title = None, up_description = None, up_status = Some complete,
               up_dueAt = None, up_completedAt = Some now \<rparr>"
  define rows where
    "rows = map (\<lambda>r. if tr_id r = i then apply_update u now r else r) (todos (store w))"
  have us: "up_status u = Some complete" by (simp add: u_def)
  obtain r where r: "r \<in> set (todos (store w))" "tr_id r = i"
    using assms(4) by blast
  have i4: "as_int4 (num_of_int i) = Some i"
    using assms(2) by (simp add: as_int4_num_of_int)
  have "filter (\<lambda>r. tr_id r = i) (todos (store w)) \<noteq> []"
    using r by (auto simp: filter_empty_conv)
  then obtain r0 rs where f: "filter (\<lambda>r. tr_id r = i) (todos (store w)) = r0 # rs"
    by (cases "filter (\<lambda>r. tr_id r = i) (todos (store w))") auto
  have "r0 \<in> set (filter (\<lambda>r. tr_id r = i) (todos (store w)))" by (simp add: f)
  then have r0: "tr_id r0 = i" "r0 \<in> set (todos (store w))" by simp_all
  define w' where "w' = w\<lparr>issued := issued w @ [UpdateTodoById (Some (num_of_int i))],
      faults := tl (faults w), store := (store w)\<lparr>todos := rows\<rparr>\<rparr>"
  define this' where "this' = this\<lparr>todo_props :=
      (todo_props_of_row (apply_update u now r0))\<lparr>tp_subTodos := tp_subTodos (todo_props this)\<rparr>\<rparr>"
  have run: "Todo_markComplete now this w = (Inr this', w')"
    unfolding Todo_markComplete_def u_def [symmetric] this'_def w'_def rows_def
    by (rule Todo_update_found [OF assms(1) i4 assms(5) f])
  have st: "tp_status (todo_props this') = complete"
    by (simp add: this'_def todo_props_of_row_def apply_update_def us)
  have idp: "tp_id (todo_props this') = Some (num_of_int i)"
    by (simp add: this'_def todo_props_of_row_def tr_id_apply_update r0(1))
  have tw: "todos (store w') = rows"
    by (simp add: w'_def)
  have "apply_update u now r0 \<in> set rows"
    unfolding rows_def using r0 by (auto intro!: image_eqI [where x = r0])
  then have ex: "\<exists>r \<in> set (todos (store w')). tr_id r = i"
    unfolding tw using r0(1) tr_id_apply_update by blast
  have all: "\<forall>r \<in> set (todos (store w')). tr_id r = i \<longrightarrow> tr_status r = complete"
    unfolding tw rows_def using updated_rows_status [OF _ _ us] by blast
  have ids: "map tr_id (todos (store w')) = map tr_id (todos (store w))"
    unfolding tw rows_def by (rule ids_updated_rows)
  have snt: "sent w' = sent w" by (simp add: w'_def)
  show ?thesis
    by (intro exI [of _ this'] exI [of _ w'] conjI run st idp ex all ids snt)
qed

theorem markComplete_idempotent_witness:
  "tp_status (todo_props
      \<lparr> todo_props = \<lparr> tp_id = Some (num_of_int 1), tp_title = ''Test Todo'',
          tp_description = ''This is a test todo'', tp_status = complete, tp_dueAt = None,
          tp_createdAt = 1000, tp_completedAt = Some 2000, tp_editedAt = Some 2000,
          tp_subTodos = None \<rparr> \<rparr>) = complete
   \<and> (\<exists>this' w'.
        Todo_markComplete 3000
          \<lparr> todo_props = \<lparr> tp_id = Some (num_of_int 1), tp_title = ''Test Todo'',
              tp_description = ''This is a test todo'', tp_status = complete, tp_dueAt = None,
              tp_createdAt = 1000, tp_completedAt = Some 2000, tp_editedAt = Some 2000,
              tp_subTodos = None \<rparr> \<rparr>
          \<lparr> store = \<lparr> todos = [\<lparr> tr_id = 1, tr_title = ''Test Todo'',
                tr_description = ''This is a test todo'', tr_status = complete, tr_due_at = None,
                tr_created_at = 1000, tr_completed_at = Some 2000, tr_edited_at = Some 2000 \<rparr>],
              subtodos = [], todos_id_seq = 2, subtodos_id_seq = 1 \<rparr>,
            faults = [], issued = [], sent = [] \<rparr>
          = (Inr this', w')
        \<and> tp_status (todo_props this') = complete
        \<and> map tr_status (todos (store w')) = [complete])"
proof -
  let ?t = "\<lparr> todo_props = \<lparr> tp_id = Some (num_of_int 1), tp_title = ''Test Todo'',
          tp_description = ''This is a test todo'', tp_status = complete, tp_dueAt = None,
          tp_createdAt = 1000, tp_completedAt = Some 2000, tp_editedAt = Some 2000,
          tp_subTodos = None \<rparr> \<rparr>"
  let ?w = "\<lparr> store = \<lparr> todos = [\<lparr> tr_id = 1, tr_title = ''Test Todo'',
                tr_description = ''This is a test todo'', tr_status = complete, tr_due_at = None,
                tr_created_at = 1000, tr_completed_at = Some 2000, tr_edited_at = Some 2000 \<rparr>],
              subtodos = [], todos_id_seq = 2, subtodos_id_seq = 1 \<rparr>,
            faults = [], issued = [], sent = [] \<rparr>"
  have h1: "tp_id (todo_props ?t) = Some (num_of_int 1)" by simp
  have h2: "- 2147483648 \<le> (1::int) \<and> (1::int) \<le> 2147483647" by simp
  have h3: "tp_status (todo_props ?t) = complete" by simp
  have h4: "\<exists>r \<in> set (todos (store ?w)). tr_id r = 1 \<and> tr_status r = complete" by simp
  have h5: "faults ?w = [] \<or> \<not> hd (faults ?w)" by simp
  obtain this' w' where r: "Todo_markComplete 3000 ?t ?w = (Inr this', w')"
      "tp_status (todo_props this') = complete"
      "\<forall>r \<in> set (todos (store w')). tr_id r = 1 \<longrightarrow> tr_status r = complete"
      "map tr_id (todos (store w')) = map tr_id (todos (store ?w))"
    using markComplete_idempotent [OF h1 h2 h3 h4 h5, of 3000] by blast
  from r(4) obtain x where x: "todos (store w') = [x]" "tr_id x = 1"
    by (cases "todos (store w')") auto
  then have "tr_status x = complete" using r(3) by simp
  then have m: "map tr_status (todos (store w')) = [complete]" using x by simp
  have "\<exists>this' w'. Todo_markComplete 3000 ?t ?w = (Inr this', w')
      \<and> tp_status (todo_props this') = complete
      \<and> map tr_status (todos (store w')) = [complete]"
    by (intro exI [of _ this'] exI [of _ w'] conjI r(1) r(2) m)
  with h3 show ?thesis by (rule conjI)
qed

section \<open>Properties of the controllers\<close>

lemma sent_res_send: "sent (res_send p w) = sent w @ [p]"
  by (simp add: res_send_def)

lemma sent_sql: "sent (snd (sql st sem w)) = sent w"
  by (simp add: sql_def Let_def split: sum.splits prod.splits)

lemma sent_SubTodo_create: "sent (snd (SubTodo_create t st c n w)) = sent w"
  using sent_sql [of InsertSubTodo "insert_subtodo t st c n" w]
  by (cases "sql InsertSubTodo (insert_subtodo t st c n) w")
     (auto simp: SubTodo_create_def split: sum.splits list.splits)

lemma sent_SubTodo_read: "sent (snd (SubTodo_read n w)) = sent w"
  using sent_sql [of "SelectSubTodoById n" "select_subtodo_by_id n" w]
  by (cases "sql (SelectSubTodoById n) (select_subtodo_by_id n) w")
     (auto simp: SubTodo_read_def split: sum.splits list.splits)

lemma sent_SubTodo_markComplete: "sent (snd (SubTodo_markComplete now this w)) = sent w"
proof (cases "sp_id (props this)")
  case None
  then show ?thesis by (simp add: SubTodo_markComplete_def)
next
  case (Some n)
  then show ?thesis
    using sent_sql [of "UpdateSubTodoById n" "update_subtodo_complete n now" w]
    by (cases "sql (UpdateSubTodoById n) (update_subtodo_complete n now) w")
       (auto simp: SubTodo_markComplete_def split: sum.splits)
qed

lemma sent_SubTodo_createD:
  "SubTodo_create t st c n w = (a, w1) \<Longrightarrow> sent w1 = sent w"
  using sent_SubTodo_create [of t st c n w] by simp

lemma createSubtodo_sends_once:
  "length (sent (snd (createSubtodo other_text now rq w))) = Suc (length (sent w))"
  by (auto simp: createSubtodo_def Let_def sent_res_send
      split: sum.splits option.splits json.splits prod.splits
      dest: sent_SubTodo_createD)

lemma completeSubTodo_sends_once:
  "length (sent (snd (completeSubTodo other_text now rq w))) = Suc (length (sent w))"
proof -
  have r: "sent (snd (SubTodo_read (getSubTodoId rq) w)) = sent w"
    by (rule sent_SubTodo_read)
  have m: "\<And>x w1. sent (snd (SubTodo_markComplete now x w1)) = sent w1"
    by (rule sent_SubTodo_markComplete)
  show ?thesis
  proof (cases "SubTodo_read (getSubTodoId rq) w")
    case (Pair a w1)
    then have w1: "sent w1 = sent w" using r by simp
    show ?thesis
    proof (cases a)
      case (Inl e)
      then show ?thesis using Pair w1
        by (simp add: completeSubTodo_def Let_def sent_res_send)
    next
      case (Inr found)
      show ?thesis
      proof (cases found)
        case None
        then show ?thesis using Pair Inr w1
          by (simp add: completeSubTodo_def Let_def sent_res_send)
      next
        case (Some x)
        obtain b w2 where mc: "SubTodo_markComplete now x w1 = (b, w2)"
          by (cases "SubTodo_markComplete now x w1")
        then have "sent w2 = sent w1" using m [of x w1] by simp
        then show ?thesis using Pair Inr Some w1 mc
          by (cases b) (simp_all add: completeSubTodo_def Let_def sent_res_send)
      qed
    qed
  qed
qed

lemma invalid_id_rejected_where_checked:
  assumes "isNaN (getId rq)"
  shows "getTodo rq w = (Inr (), res_send (plain BadRequest ''Invalid ID'') w)"
    and "sendFormEdit now rq w = (Inr (), res_send (plain BadRequest ''Invalid ID'') w)"
    and "completeSubTodo other_text now rq w = (Inr (), res_send (plain BadRequest ''Invalid ID'') w)"
    and "issued (res_send (plain BadRequest ''Invalid ID'') w) = issued w"
    and "store (res_send (plain BadRequest ''Invalid ID'') w) = store w"
  using assms
  by (simp_all add: getTodo_def sendFormEdit_def completeSubTodo_def Let_def res_send_def)

text \<open>
  C2 asks that every registered handler call \<^verbatim>\<open>Response.send\<close> exactly once on every
  request, error paths included. \<^verbatim>\<open>getTodoList\<close> does not: on \<^verbatim>\<open>GET /todos\<close>, when
  the database fails on the \<^verbatim>\<open>SELECT\<close> of \<^verbatim>\<open>Todo.readAll\<close>, the \<^verbatim>\<open>catch\<close> sends the
  500 and the send after the \<^verbatim>\<open>try\<close> follows with the 200: two sends for one request.
\<close>

theorem getTodoList_sends_twice_on_store_failure:
  "getTodoList (\<lambda>u b. Some []) (\<lambda>st sb ob rows. Some rows)
     \<lparr> req = \<lparr> req_method = ''GET'', req_url = Some ''/todos'',
         hdr_accept = Some ''application/json'', hdr_content_type = Some ''application/json'',
         hdr_host = Some ''localhost:3000'' \<rparr>, body = JObj [] \<rparr>
     \<lparr> store = \<lparr> todos = [], subtodos = [], todos_id_seq = 1, subtodos_id_seq = 1 \<rparr>,
       faults = [True], issued = [], sent = [] \<rparr>
   = (Inr (),
      \<lparr> store = \<lparr> todos = [], subtodos = [], todos_id_seq = 1, subtodos_id_seq = 1 \<rparr>,
        faults = [], issued = [SelectTodos None ''id'' ''asc''],
        sent = [\<lparr> statusCode = InternalServerError, message = ''Internal Server Error'',
                   payload = None, template = Some ''ErrorView'', redirect = None \<rparr>,
                \<lparr> statusCode = OK, message = ''Todo list retrieved'',
                   payload = Some (P_todos []), template = Some ''ListView'',
                   redirect = None \<rparr>] \<rparr>)"
  by (simp add: getTodoList_def getSearchParams_def Todo_readAll_def sql_def res_send_def
      plain_def isSortByValid_def isOrderByValid_def Let_def)

text \<open>
  C8 asks that a handler of a route with an \<^verbatim>\<open>:id\<close> segment answer 400 \<^verbatim>\<open>Invalid ID\<close>
  and leave the store alone when \<^verbatim>\<open>getId()\<close> is \<^verbatim>\<open>NaN\<close>. \<^verbatim>\<open>createSubtodo\<close> does not
  test the id: on \<^verbatim>\<open>POST /todos/abc/subtodos\<close> with a title, \<^verbatim>\<open>getId()\<close> is \<^verbatim>\<open>NaN\<close>,
  a subtodo row with no todo is inserted and the answer is a 302 to \<^verbatim>\<open>/todos/NaN\<close>.
\<close>

theorem createSubtodo_accepts_invalid_id:
  "getId \<lparr> req = \<lparr> req_method = ''POST'', req_url = Some ''/todos/abc/subtodos'',
         hdr_accept = Some ''application/json'', hdr_content_type = Some ''application/json'',
         hdr_host = Some ''localhost:3000'' \<rparr>,
       body = JObj [(''title'', JStr ''Test SubTodo''), (''status'', JStr ''incomplete'')] \<rparr> = NaN
   \<and> createSubtodo (\<lambda>q. []) 5000
     \<lparr> req = \<lparr> req_method = ''POST'', req_url = Some ''/todos/abc/subtodos'',
         hdr_accept = Some ''application/json'', hdr_content_type = Some ''application/json'',
         hdr_host = Some ''localhost:3000'' \<rparr>,
       body = JObj [(''title'', JStr ''Test SubTodo''), (''status'', JStr ''incomplete'')] \<rparr>
     \<lparr> store = \<lparr> todos = [], subtodos = [], todos_id_seq = 1, subtodos_id_seq = 1 \<rparr>,
       faults = [], issued = [], sent = [] \<rparr>
   = (Inr (),
      \<lparr> store = \<lparr> todos = [],
          subtodos = [\<lparr> sr_id = 1, sr_title = ''Test SubTodo'', sr_status = incomplete,
                         sr_created_at = 5000, sr_completed_at = None, sr_edited_at = None,
                         sr_todo_id = None \<rparr>],
          todos_id_seq = 1, subtodos_id_seq = 2 \<rparr>,
        faults = [], issued = [InsertSubTodo],
        sent = [\<lparr> statusCode = Redirect, message = ''SubTodo created successfully!'',
                   payload = None, template = None, redirect = Some ''/todos/NaN'' \<rparr>] \<rparr>)"
  by code_simp

lemma getTodo_sends_twice_on_store_failure:
  "getTodo
     \<lparr> req = \<lparr> req_method = ''GET'', req_url = Some ''/todos/1'',
         hdr_accept = Some ''application/json'', hdr_content_type = Some ''application/json'',
         hdr_host = Some ''localhost:3000'' \<rparr>, body = JObj [] \<rparr>
     \<lparr> store = \<lparr> todos = [], subtodos = [], todos_id_seq = 1, subtodos_id_seq = 1 \<rparr>,
       faults = [True], issued = [], sent = [] \<rparr>
   = (Inr (),
      \<lparr> store = \<lparr> todos = [], subtodos = [], todos_id_seq = 1, subtodos_id_seq = 1 \<rparr>,
        faults = [], issued = [SelectTodoById (Fin 1)],
        sent = [\<lparr> statusCode = InternalServerError, message = ''Internal Server Error'',
                   payload = None, template = Some ''ErrorView'', redirect = None \<rparr>,
                \<lparr> statusCode = NotFound, message = ''Not found'',
                   payload = None, template = None, redirect = None \<rparr>] \<rparr>)"
  by code_simp

lemma sendFormEdit_sends_twice_on_method_field:
  "map message (sent (snd (sendFormEdit 5000
     \<lparr> req = \<lparr> req_method = ''GET'', req_url = Some ''/todos/1/edit'',
         hdr_accept = Some ''text/html'',
         hdr_content_type = Some ''application/x-www-form-urlencoded'',
         hdr_host = Some ''localhost:3000'' \<rparr>, body = JObj [(''_method'', JStr ''DELETE'')] \<rparr>
     \<lparr> store = \<lparr> todos = [\<lparr> tr_id = 1, tr_title = ''Test Todo'',
             tr_description = ''This is a test todo'', tr_status = incomplete, tr_due_at = None,
             tr_created_at = 1000, tr_completed_at = None, tr_edited_at = None \<rparr>],
           subtodos = [], todos_id_seq = 2, subtodos_id_seq = 1 \<rparr>,
       faults = [], issued = [], sent = [] \<rparr>)))
   = [''Edit Todo'', ''Todo deleted successfully!'']"
  by code_simp

end
